theory Spec2Isabelle
  imports Complex_Main "HOL-Library.AList"
begin

section \<open>SyncFlix: rooms, pairing, playback synchronisation and signalling relay\<close>

text \<open>
  A shallow embedding of \<open>src/app.py\<close>. The two module-level dictionaries \<open>rooms\<close> and
  \<open>room_locks\<close> are the server state; every Socket.IO handler is a function that takes
  the connection id of the sender (\<open>request.sid\<close>), the readings of \<open>time.time()\<close> it makes,
  the payload \<open>data\<close> and the state, and returns the new state with the list of transport
  calls (\<open>emit\<close>, \<open>join_room\<close>) it made, in order. Exceptions are values of a sum type.
  The \<open>print\<close> calls are not modelled, nor are the page routes and \<open>chat_message\<close>,
  which neither read nor write a room. A Python float is modelled by the real number it
  denotes: the handlers store, compare and forward floats without computing on them. The
  one float computation of the program, the subtraction in the sweep, rounds as binary64
  arithmetic does.
\<close>

subsection \<open>Data model\<close>

type_synonym sid = string
type_synonym room_id = string

text \<open>The dictionary \<open>rooms[room_id]['state']\<close>.\<close>

record playback =
  time :: real
  paused :: bool

text \<open>The dictionary \<open>rooms[room_id]\<close>; \<open>None\<close> in a slot is Python's \<open>None\<close>.\<close>

record room =
  host_sid :: "sid option"
  client_sid :: "sid option"
  video_hash :: string
  filename :: string
  state :: playback
  last_active :: real

text \<open>
  \<open>rooms\<close> is a Python dictionary: an association list in insertion order, read with
  \<open>map_of\<close>, written with \<open>AList.update\<close> and \<open>AList.delete\<close>. Of \<open>room_locks\<close> only the
  keys matter to a sequential run: the locks themselves carry no data.
\<close>

record server =
  rooms :: "(room_id \<times> room) list"
  room_locks :: "room_id list"

definition ROOM_TTL_SECONDS :: real where
  "ROOM_TTL_SECONDS = 60 * 60"

definition initial_server :: server where
  "initial_server = \<lparr>rooms = [], room_locks = []\<rparr>"

subsection \<open>Payloads, transport calls and errors\<close>

text \<open>
  What \<open>data.get('time', d)\<close> followed by \<open>float(...)\<close> can meet: the key is absent, its
  value converts to a float, or the conversion raises.
\<close>

datatype time_field = NoTime | Time real | BadTime

record create_data =
  cd_video_hash :: "string option"
  cd_filename :: "string option"

record join_data =
  jd_room_id :: "room_id option"
  jd_video_hash :: "string option"

record control_data =
  ct_room_id :: "room_id option"
  ct_action :: "string option"
  ct_time :: time_field

text \<open>\<open>su_paused\<close> is \<open>None\<close> when the key is absent, else the truth value of what was sent.\<close>

record state_update_data =
  su_room_id :: "room_id option"
  su_time :: time_field
  su_paused :: "bool option"

record signal_data =
  sg_room_id :: "room_id option"
  sg_value :: "string option"

datatype payload =
    Message string
  | Room_created room_id string
  | Sync_state playback
  | Signal room_id string "string option"
  | No_payload

text \<open>
  \<open>Emit ev d r\<close> is \<open>emit(ev, d, room=r)\<close>; an \<open>emit\<close> without \<open>room\<close> goes to the room named
  after the sender's own connection id. \<open>Join_room s r\<close> is \<open>join_room(r)\<close> called for \<open>s\<close>.
\<close>

datatype effect =
    Emit string payload string
  | Join_room sid room_id

datatype error = KeyError room_id | FloatError

text \<open>Truth value of a string or \<open>None\<close>, as \<open>if x:\<close> and \<open>not x\<close> read it.\<close>

definition truthy :: "string option \<Rightarrow> bool" where
  "truthy v = (case v of None \<Rightarrow> False | Some s \<Rightarrow> s \<noteq> [])"

text \<open>\<open>if target: emit(ev, d, room=target)\<close>\<close>

definition emit_if :: "string option \<Rightarrow> string \<Rightarrow> payload \<Rightarrow> effect list" where
  "emit_if target ev d = (case target of None \<Rightarrow> [] | Some t \<Rightarrow> if t = [] then [] else [Emit ev d t])"

text \<open>\<open>float(data.get('time', d))\<close>\<close>

definition float_of :: "time_field \<Rightarrow> real \<Rightarrow> error + real" where
  "float_of tf d = (case tf of NoTime \<Rightarrow> Inr d | Time v \<Rightarrow> Inr v | BadTime \<Rightarrow> Inl FloatError)"

subsection \<open>Creating a room\<close>

text \<open>
  \<open>generate_room_id()\<close> draws from \<open>secrets\<close>: \<open>gen i\<close> is the token of its \<open>i\<close>-th call. The
  loop \<open>while room_id in rooms\<close> may run forever, which is the value \<open>None\<close>.
\<close>

partial_function (option) fresh_room_id ::
  "(nat \<Rightarrow> room_id) \<Rightarrow> nat \<Rightarrow> room_id \<Rightarrow> (room_id \<times> room) list \<Rightarrow> room_id option" where
  "fresh_room_id gen i room_id rs =
     (if map_of rs room_id \<noteq> None then fresh_room_id gen (Suc i) (gen i) rs else Some room_id)"

definition handle_create_room ::
  "sid \<Rightarrow> real \<Rightarrow> (nat \<Rightarrow> room_id) \<Rightarrow> create_data \<Rightarrow> server \<Rightarrow> (server \<times> effect list) option" where
  "handle_create_room sid now gen data st =
     (if \<not> truthy (cd_video_hash data) \<or> \<not> truthy (cd_filename data)
      then Some (st, [Emit ''error'' (Message ''Missing video metadata'') sid])
      else
        case (cd_video_hash data, cd_filename data) of
          (Some vh, Some fn) \<Rightarrow>
            (case fresh_room_id gen 1 (gen 0) (rooms st) of
               None \<Rightarrow> None
             | Some room_id \<Rightarrow>
                 Some (st\<lparr>rooms := AList.update room_id
                             \<lparr>host_sid = Some sid, client_sid = None, video_hash = vh,
                              filename = fn, state = \<lparr>time = 0, paused = True\<rparr>,
                              last_active = now\<rparr> (rooms st),
                           room_locks := (if room_id \<in> set (room_locks st) then room_locks st
                                          else room_locks st @ [room_id])\<rparr>,
                       [Join_room sid room_id,
                        Emit ''room_created'' (Room_created room_id fn) sid]))
        | _ \<Rightarrow> Some (st, [Emit ''error'' (Message ''Missing video metadata'') sid]))"

subsection \<open>Joining a room\<close>

definition handle_join_room ::
  "sid \<Rightarrow> real \<Rightarrow> join_data \<Rightarrow> server \<Rightarrow> error + server \<times> effect list" where
  "handle_join_room sid now data st =
     (case jd_room_id data of
        None \<Rightarrow> Inr (st, [Emit ''error'' (Message ''Missing room id'') sid])
      | Some room_id \<Rightarrow>
          if room_id = [] then Inr (st, [Emit ''error'' (Message ''Missing room id'') sid])
          else
            (case map_of (rooms st) room_id of
              None \<Rightarrow>
                Inr (st, [Emit ''error'' (Message (''Room '' @ room_id @ '' not found'')) sid])
            | Some m \<Rightarrow>
                if room_id \<notin> set (room_locks st) then Inl (KeyError room_id)
                else if client_sid m \<noteq> None
                then Inr (st, [Emit ''error'' (Message ''Room is full'') sid])
                else if jd_video_hash data \<noteq> Some (video_hash m)
                then Inr (st, [Emit ''error'' (Message
                  ''Video file mismatch! Make sure you selected the same file as the host.'') sid])
                else
                  let m' = m\<lparr>client_sid := Some sid, last_active := now\<rparr>
                  in Inr (st\<lparr>rooms := AList.update room_id m' (rooms st)\<rparr>,
                          [Join_room sid room_id,
                           Emit ''sync_state'' (Sync_state (state m')) sid]
                          @ emit_if (host_sid m') ''peer_joined'' (Message ''Peer joined'')
                          @ [Emit ''ready_for_call'' No_payload room_id])))"

subsection \<open>Playback control and heartbeat\<close>

definition handle_control ::
  "sid \<Rightarrow> real \<Rightarrow> control_data \<Rightarrow> server \<Rightarrow> error + server \<times> effect list" where
  "handle_control sid now data st =
     (let room_id = ct_room_id data;
          action = ct_action data;
          dflt = (case room_id of None \<Rightarrow> 0
                  | Some r \<Rightarrow> (case map_of (rooms st) r of None \<Rightarrow> 0 | Some m \<Rightarrow> time (state m)))
      in case float_of (ct_time data) dflt of
           Inl e \<Rightarrow> Inl e
         | Inr time_val \<Rightarrow>
             (case room_id of
                None \<Rightarrow> Inr (st, [])
              | Some r \<Rightarrow>
                  if r = [] then Inr (st, [])
                  else
                    (case map_of (rooms st) r of
                      None \<Rightarrow> Inr (st, [])
                    | Some m \<Rightarrow>
                        if r \<notin> set (room_locks st) then Inl (KeyError r)
                        else
                          let m1 = (if action = Some ''play''
                                    then m\<lparr>state := (state m)\<lparr>paused := False\<rparr>\<rparr>
                                    else if action = Some ''pause''
                                    then m\<lparr>state := (state m)\<lparr>paused := True\<rparr>\<rparr>
                                    else if action = Some ''seek''
                                    then m\<lparr>state := (state m)\<lparr>time := time_val\<rparr>\<rparr>
                                    else m);
                              m2 = m1\<lparr>state := (state m1)\<lparr>time := time_val\<rparr>\<rparr>;
                              m3 = m2\<lparr>last_active := now\<rparr>;
                              host = host_sid m3;
                              client = client_sid m3;
                              target = (if Some sid = host then client else host)
                          in Inr (st\<lparr>rooms := AList.update r m3 (rooms st)\<rparr>,
                                  emit_if target ''sync_state'' (Sync_state (state m3))))))"

definition handle_state_update ::
  "sid \<Rightarrow> real \<Rightarrow> state_update_data \<Rightarrow> server \<Rightarrow> error + server \<times> effect list" where
  "handle_state_update sid now data st =
     (let room_id = su_room_id data
      in case float_of (su_time data) 0 of
           Inl e \<Rightarrow> Inl e
         | Inr time_val \<Rightarrow>
             (let pausd = (case su_paused data of None \<Rightarrow> True | Some b \<Rightarrow> b)
              in case room_id of
                   None \<Rightarrow> Inr (st, [])
                 | Some r \<Rightarrow>
                     if r = [] then Inr (st, [])
                     else
                       (case map_of (rooms st) r of
                         None \<Rightarrow> Inr (st, [])
                       | Some m \<Rightarrow>
                           if r \<notin> set (room_locks st) then Inl (KeyError r)
                           else
                             let m1 = m\<lparr>state := (state m)\<lparr>time := time_val\<rparr>\<rparr>;
                                 m2 = m1\<lparr>state := (state m1)\<lparr>paused := pausd\<rparr>\<rparr>;
                                 m3 = m2\<lparr>last_active := now\<rparr>;
                                 host = host_sid m3;
                                 client = client_sid m3;
                                 target = (if Some sid = host then client else host)
                             in Inr (st\<lparr>rooms := AList.update r m3 (rooms st)\<rparr>,
                                     emit_if target ''sync_state'' (Sync_state (state m3))))))"

subsection \<open>Signalling relay\<close>

text \<open>\<open>payload\<close> is the pair of \<open>payload['event']\<close> and \<open>payload['data']\<close>.\<close>

definition route_to_peer :: "sid \<Rightarrow> room_id \<Rightarrow> string \<times> payload \<Rightarrow> server \<Rightarrow> effect list" where
  "route_to_peer sid room_id pl st =
     (case map_of (rooms st) room_id of
        None \<Rightarrow> []
      | Some m \<Rightarrow>
          let host = host_sid m;
              client = client_sid m;
              target = (if Some sid = host then client else host)
          in emit_if target (fst pl) (snd pl))"

text \<open>
  \<open>handle_offer\<close>, \<open>handle_answer\<close> and \<open>handle_ice_candidate\<close> have the same body: they
  differ in the event name and in the key under which the opaque value travels.
\<close>

definition relay :: "string \<Rightarrow> string \<Rightarrow> sid \<Rightarrow> signal_data \<Rightarrow> server \<Rightarrow> effect list" where
  "relay ev key sid data st =
     (case sg_room_id data of
        None \<Rightarrow> []
      | Some room_id \<Rightarrow>
          if room_id = [] \<or> map_of (rooms st) room_id = None then []
          else route_to_peer sid room_id (ev, Signal room_id key (sg_value data)) st)"

definition handle_offer :: "sid \<Rightarrow> signal_data \<Rightarrow> server \<Rightarrow> effect list" where
  "handle_offer = relay ''offer'' ''offer''"

definition handle_answer :: "sid \<Rightarrow> signal_data \<Rightarrow> server \<Rightarrow> effect list" where
  "handle_answer = relay ''answer'' ''answer''"

definition handle_ice_candidate :: "sid \<Rightarrow> signal_data \<Rightarrow> server \<Rightarrow> effect list" where
  "handle_ice_candidate = relay ''ice_candidate'' ''candidate''"

subsection \<open>Disconnect\<close>

text \<open>
  The loop over \<open>list(rooms.items())\<close> mutates each \<open>meta\<close> in place. It reads the clock
  once for every room it changes: \<open>clock k\<close> is the reading of the \<open>k\<close>-th such call.
\<close>

fun disconnect_loop ::
  "sid \<Rightarrow> (nat \<Rightarrow> real) \<Rightarrow> nat \<Rightarrow> (room_id \<times> room) list \<Rightarrow> (room_id \<times> room) list" where
  "disconnect_loop sid clock k [] = []"
| "disconnect_loop sid clock k ((room_id, meta) # rest) =
     (let meta1 = (if host_sid meta = Some sid then meta\<lparr>host_sid := None\<rparr> else meta);
          meta2 = (if client_sid meta1 = Some sid then meta1\<lparr>client_sid := None\<rparr> else meta1);
          changed = (host_sid meta = Some sid \<or> client_sid meta1 = Some sid)
      in if changed
         then (room_id, meta2\<lparr>last_active := clock k\<rparr>) # disconnect_loop sid clock (Suc k) rest
         else (room_id, meta2) # disconnect_loop sid clock k rest)"

definition handle_disconnect :: "sid \<Rightarrow> (nat \<Rightarrow> real) \<Rightarrow> server \<Rightarrow> server" where
  "handle_disconnect sid clock st = st\<lparr>rooms := disconnect_loop sid clock 0 (rooms st)\<rparr>"

subsection \<open>The cleanup sweep\<close>

text \<open>
  Python's \<open>float\<close> is IEEE 754 binary64, and \<open>a - b\<close> on floats is the exact difference
  rounded to the nearest binary64 number, ties going to the even significand. A binary64
  number is an integer of at most 53 bits times a power of two: for \<open>x\<close> with
  \<open>2 ^ e \<le> \<bar>x\<bar> < 2 ^ (e + 1)\<close> the spacing of the numbers around \<open>x\<close> is \<open>2 ^ (e - 52)\<close>, and
  below \<open>2 ^ (- 1022)\<close> it stays \<open>2 ^ (- 1074)\<close>. A result of magnitude \<open>2 ^ 1024\<close> or more
  stands for the infinity of its sign; the difference of two readings of \<open>time.time()\<close>
  never gets there.
\<close>

definition round_half_even :: "real \<Rightarrow> int" where
  "round_half_even q =
     (let f = \<lfloor>q\<rfloor>; r = q - of_int f
      in if r < 1 / 2 then f else if r > 1 / 2 then f + 1 else if even f then f else f + 1)"

definition double_exponent :: "real \<Rightarrow> int" where
  "double_exponent x = max \<lfloor>log 2 \<bar>x\<bar>\<rfloor> (- 1022)"

definition double_round :: "real \<Rightarrow> real" where
  "double_round x =
     (if x = 0 then 0
      else let u = 2 powr of_int (double_exponent x - 52)
           in of_int (round_half_even (x / u)) * u)"

text \<open>\<open>a - b\<close> on two floats\<close>

definition double_sub :: "real \<Rightarrow> real \<Rightarrow> real" where
  "double_sub a b = double_round (a - b)"

text \<open>
  One iteration of the \<open>while True\<close> loop of \<open>cleanup_worker\<close>, between two sleeps: the
  first loop collects \<open>to_delete\<close>, the second deletes, swallowing \<open>KeyError\<close>. The
  comparison of the float difference with the integer \<open>ROOM_TTL_SECONDS\<close> is exact.
\<close>

fun collect_to_delete :: "real \<Rightarrow> (room_id \<times> room) list \<Rightarrow> room_id list" where
  "collect_to_delete now [] = []"
| "collect_to_delete now ((rid, meta) # rest) =
     (if host_sid meta = None \<and> client_sid meta = None
      then rid # collect_to_delete now rest
      else if double_sub now (last_active meta) > ROOM_TTL_SECONDS
      then rid # collect_to_delete now rest
      else collect_to_delete now rest)"

fun delete_rooms :: "room_id list \<Rightarrow> server \<Rightarrow> server" where
  "delete_rooms [] st = st"
| "delete_rooms (rid # rest) st =
     delete_rooms rest
       (if map_of (rooms st) rid = None then st
        else
          let st1 = st\<lparr>rooms := AList.delete rid (rooms st)\<rparr>
          in if rid \<in> set (room_locks st1)
             then st1\<lparr>room_locks := removeAll rid (room_locks st1)\<rparr>
             else st1)"

definition cleanup_pass :: "real \<Rightarrow> server \<Rightarrow> server" where
  "cleanup_pass now st = delete_rooms (collect_to_delete now (rooms st)) st"

subsection \<open>Well-formed registries and runs of events\<close>

text \<open>
  What every state the handlers can build satisfies: the keys of \<open>rooms\<close> are distinct (it
  is a dictionary), every room has its lock, and no room id is the empty string (the ids
  come from \<open>secrets.token_urlsafe(12)\<close>).
\<close>

definition wf_server :: "server \<Rightarrow> bool" where
  "wf_server st =
     (distinct (map fst (rooms st)) \<and> set (map fst (rooms st)) \<subseteq> set (room_locks st)
      \<and> [] \<notin> set (map fst (rooms st)))"

text \<open>
  The spec's words for the routing rule (sections 4.3 and 9): the counterpart of a sender is
  the client slot if the sender equals the stored host connection, the host slot otherwise.
\<close>

definition counterpart :: "sid \<Rightarrow> room \<Rightarrow> sid option" where
  "counterpart sender m = (if host_sid m = Some sender then client_sid m else host_sid m)"

text \<open>
  Control and heartbeat events as the transport delivers them, one after the other. A
  handler that raises does so before its first write, so the registry is then as it was.
\<close>

datatype sync_event =
    Control sid real control_data
  | State_update sid real state_update_data

fun apply_event :: "sync_event \<Rightarrow> server \<Rightarrow> server" where
  "apply_event (Control sid now data) st =
     (case handle_control sid now data st of Inl e \<Rightarrow> st | Inr r \<Rightarrow> fst r)"
| "apply_event (State_update sid now data) st =
     (case handle_state_update sid now data st of Inl e \<Rightarrow> st | Inr r \<Rightarrow> fst r)"

fun run_events :: "sync_event list \<Rightarrow> server \<Rightarrow> server" where
  "run_events [] st = st"
| "run_events (e # es) st = run_events es (apply_event e st)"

text \<open>The playback state of a room of the registry, if the room exists.\<close>

definition playback_of :: "server \<Rightarrow> room_id \<Rightarrow> playback option" where
  "playback_of st rid = map_option state (map_of (rooms st) rid)"

subsection \<open>A concrete run\<close>

text \<open>
  Connection \<open>A\<close> creates a room for \<open>movie.mp4\<close>; the token drawn is \<open>r1\<close>. The states
  below are the registry after the creation, after \<open>A\<close> itself joins the room, and after
  \<open>A\<close> disconnects from the created room instead.
\<close>

definition example_gen :: "nat \<Rightarrow> room_id" where
  "example_gen i = ''r1''"

definition example_clock :: "nat \<Rightarrow> real" where
  "example_clock k = 20 + real k"

definition created_room :: room where
  "created_room = \<lparr>host_sid = Some ''A'', client_sid = None, video_hash = ''abc123'',
     filename = ''movie.mp4'', state = \<lparr>time = 0, paused = True\<rparr>, last_active = 10\<rparr>"

definition created_server :: server where
  "created_server = \<lparr>rooms = [(''r1'', created_room)], room_locks = [''r1'']\<rparr>"

definition self_joined_server :: server where
  "self_joined_server =
     \<lparr>rooms = [(''r1'', created_room\<lparr>client_sid := Some ''A'', last_active := 11\<rparr>)],
      room_locks = [''r1'']\<rparr>"

definition abandoned_server :: server where
  "abandoned_server =
     \<lparr>rooms = [(''r1'', created_room\<lparr>host_sid := None, last_active := 20\<rparr>)],
      room_locks = [''r1'']\<rparr>"

definition paired_server :: server where
  "paired_server =
     \<lparr>rooms = [(''r1'', created_room\<lparr>client_sid := Some ''B'', last_active := 11\<rparr>)],
      room_locks = [''r1'']\<rparr>"

text \<open>
  A registry for the sweep at time 5000: \<open>r1\<close> has lost both peers, \<open>r2\<close> is paired but
  was last active at time 10, \<open>r3\<close> has its host and was active at time 4000.
\<close>

definition sweep_server :: server where
  "sweep_server =
     \<lparr>rooms = [(''r1'', created_room\<lparr>host_sid := None, last_active := 4900\<rparr>),
               (''r2'', created_room\<lparr>client_sid := Some ''B''\<rparr>),
               (''r3'', created_room\<lparr>last_active := 4000\<rparr>)],
      room_locks = [''r1'', ''r2'', ''r3'']\<rparr>"

text \<open>
  A registry for the sweep at time 4000: its one room is paired and was last active at
  \<open>400 - 2 ^ (- 43)\<close>, the binary64 number that the literal \<open>399.9999999999999\<close> denotes.
\<close>

definition edge_server :: server where
  "edge_server =
     \<lparr>rooms = [(''r1'', created_room\<lparr>client_sid := Some ''B'', last_active := 400 - 1 / 2 ^ 43\<rparr>)],
      room_locks = [''r1'']\<rparr>"

text \<open>
  A registry in which connection \<open>A\<close> hosts \<open>r1\<close>, is absent from \<open>r2\<close>, is the client of
  \<open>r3\<close> and holds both slots of \<open>r4\<close>.
\<close>

definition busy_server :: server where
  "busy_server =
     \<lparr>rooms = [(''r1'', created_room\<lparr>client_sid := Some ''B''\<rparr>),
               (''r2'', created_room\<lparr>host_sid := Some ''C''\<rparr>),
               (''r3'', created_room\<lparr>host_sid := Some ''D'', client_sid := Some ''A''\<rparr>),
               (''r4'', created_room\<lparr>client_sid := Some ''A''\<rparr>)],
      room_locks = [''r1'', ''r2'', ''r3'', ''r4'']\<rparr>"

text \<open>
  A run on the paired room: the host plays at 5, sends a heartbeat (6, paused), then
  come a \<open>control\<close> for a room that does not exist and one whose time does not convert.
\<close>

definition example_events :: "sync_event list" where
  "example_events =
     [Control ''A'' 12 \<lparr>ct_room_id = Some ''r1'', ct_action = Some ''play'', ct_time = Time 5\<rparr>,
      State_update ''A'' 13 \<lparr>su_room_id = Some ''r1'', su_time = Time 6, su_paused = Some True\<rparr>,
      Control ''B'' 14 \<lparr>ct_room_id = Some ''r9'', ct_action = Some ''pause'', ct_time = Time 9\<rparr>,
      Control ''B'' 15 \<lparr>ct_room_id = Some ''r1'', ct_action = Some ''play'', ct_time = BadTime\<rparr>]"

subsection \<open>Reachable registries\<close>

text \<open>
  The registries the server can be in: the empty one at start, and what a handler or a
  sweep makes of a reachable one. The tokens of \<open>secrets.token_urlsafe(12)\<close> are sixteen
  characters long, so never empty.
\<close>

inductive reachable :: "server \<Rightarrow> bool" where
  reachable_initial: "reachable initial_server"
| reachable_create:
    "reachable st \<Longrightarrow> \<forall>i. gen i \<noteq> [] \<Longrightarrow>
     handle_create_room sid now gen cd st = Some (st', effs) \<Longrightarrow> reachable st'"
| reachable_join:
    "reachable st \<Longrightarrow> handle_join_room sid now jd st = Inr (st', effs) \<Longrightarrow> reachable st'"
| reachable_control:
    "reachable st \<Longrightarrow> handle_control sid now ct st = Inr (st', effs) \<Longrightarrow> reachable st'"
| reachable_state_update:
    "reachable st \<Longrightarrow> handle_state_update sid now su st = Inr (st', effs) \<Longrightarrow> reachable st'"
| reachable_disconnect:
    "reachable st \<Longrightarrow> reachable (handle_disconnect sid clock st)"
| reachable_cleanup:
    "reachable st \<Longrightarrow> reachable (cleanup_pass now st)"

section \<open>Properties\<close>

subsection \<open>Auxiliary facts\<close>

lemmas example_defs =
  example_gen_def example_clock_def created_room_def created_server_def
  self_joined_server_def abandoned_server_def paired_server_def initial_server_def

lemma playback_both:
  "(pb::playback)\<lparr>time := a, paused := b\<rparr> = \<lparr>time = a, paused = b\<rparr>"
  by (cases pb) simp

lemma playback_time: "(pb::playback)\<lparr>time := a\<rparr> = \<lparr>time = a, paused = paused pb\<rparr>"
  by (cases pb) simp

lemma wf_roomD:
  assumes "wf_server st" and "map_of (rooms st) rid = Some m"
  shows "rid \<noteq> []" and "rid \<in> set (room_locks st)"
proof -
  from assms(2) have "(rid, m) \<in> set (rooms st)" by (rule map_of_SomeD)
  then have k: "rid \<in> set (map fst (rooms st))" by force
  from k assms(1) show "rid \<noteq> []" unfolding wf_server_def by metis
  from k assms(1) show "rid \<in> set (room_locks st)" unfolding wf_server_def by auto
qed

lemma control_existing:
  assumes "rid \<noteq> []" and "rid \<in> set (room_locks st)" and "map_of (rooms st) rid = Some m"
    and "float_of tf (time (state m)) = Inr tv"
  shows "handle_control sid now \<lparr>ct_room_id = Some rid, ct_action = a, ct_time = tf\<rparr> st =
    Inr (st\<lparr>rooms := AList.update rid
              (m\<lparr>state := \<lparr>time = tv, paused = (if a = Some ''play'' then False
                                                 else if a = Some ''pause'' then True
                                                 else paused (state m))\<rparr>,
                 last_active := now\<rparr>) (rooms st)\<rparr>,
         emit_if (counterpart sid m) ''sync_state''
           (Sync_state \<lparr>time = tv, paused = (if a = Some ''play'' then False
                                              else if a = Some ''pause'' then True
                                              else paused (state m))\<rparr>))"
  using assms
  by (simp add: handle_control_def counterpart_def Let_def playback_time playback_both
        eq_commute[of "Some sid"])

lemma state_update_existing:
  assumes "rid \<noteq> []" and "rid \<in> set (room_locks st)" and "map_of (rooms st) rid = Some m"
    and "float_of tf 0 = Inr tv"
  shows "handle_state_update sid now \<lparr>su_room_id = Some rid, su_time = tf, su_paused = p\<rparr> st =
    Inr (st\<lparr>rooms := AList.update rid
              (m\<lparr>state := \<lparr>time = tv, paused = (case p of None \<Rightarrow> True | Some b \<Rightarrow> b)\<rparr>,
                 last_active := now\<rparr>) (rooms st)\<rparr>,
         emit_if (counterpart sid m) ''sync_state''
           (Sync_state \<lparr>time = tv, paused = (case p of None \<Rightarrow> True | Some b \<Rightarrow> b)\<rparr>))"
  using assms
  by (simp add: handle_state_update_def counterpart_def Let_def playback_both
        eq_commute[of "Some sid"])

lemma relay_existing:
  assumes "rid \<noteq> []" and "map_of (rooms st) rid = Some m"
  shows "relay ev key sid \<lparr>sg_room_id = Some rid, sg_value = v\<rparr> st =
           emit_if (counterpart sid m) ev (Signal rid key v)"
  using assms
  by (simp add: relay_def route_to_peer_def counterpart_def Let_def eq_commute[of "Some sid"])

lemma wf_paired_server: "wf_server paired_server"
  by (simp add: wf_server_def example_defs)

lemma wf_created_server: "wf_server created_server"
  by (simp add: wf_server_def example_defs)

lemma wf_self_joined_server: "wf_server self_joined_server"
  by (simp add: wf_server_def example_defs)

lemma wf_abandoned_server: "wf_server abandoned_server"
  by (simp add: wf_server_def example_defs)

subsection \<open>Joining a full room\<close>

text \<open>
  Claim C3. In a well-formed registry, a \<open>join_room\<close> for an existing room whose client slot
  is occupied answers the requester alone with the error "Room is full", whatever
  fingerprint it carries, and returns the registry as it was: the client binding, the host,
  the fingerprint, the playback state and the activity time of the room are untouched. The
  client slot is an optional single connection id, so it never holds two connections.
\<close>

theorem join_room_full:
  assumes "wf_server st" and "map_of (rooms st) rid = Some m" and "client_sid m \<noteq> None"
  shows "handle_join_room sid now \<lparr>jd_room_id = Some rid, jd_video_hash = vh\<rparr> st =
           Inr (st, [Emit ''error'' (Message ''Room is full'') sid])"
  using assms wf_roomD[OF assms(1,2)] by (simp add: handle_join_room_def)

theorem join_room_full_witness:
  "wf_server paired_server
   \<and> map_of (rooms paired_server) ''r1'' = Some (created_room\<lparr>client_sid := Some ''B'', last_active := 11\<rparr>)
   \<and> client_sid (created_room\<lparr>client_sid := Some ''B'', last_active := 11\<rparr>) \<noteq> None
   \<and> handle_join_room ''C'' 12 \<lparr>jd_room_id = Some ''r1'', jd_video_hash = Some ''abc123''\<rparr>
        paired_server = Inr (paired_server, [Emit ''error'' (Message ''Room is full'') ''C''])"
proof -
  have h1: "wf_server paired_server" by (rule wf_paired_server)
  have h2: "map_of (rooms paired_server) ''r1''
              = Some (created_room\<lparr>client_sid := Some ''B'', last_active := 11\<rparr>)"
    by (simp add: example_defs)
  have h3: "client_sid (created_room\<lparr>client_sid := Some ''B'', last_active := 11\<rparr>) \<noteq> None"
    by simp
  from join_room_full[OF h1 h2 h3] h1 h2 h3 show ?thesis by simp
qed

subsection \<open>The fingerprint gate\<close>

text \<open>
  Claim C4. In a well-formed registry, a \<open>join_room\<close> for an existing room with an empty
  client slot whose fingerprint differs from the room's (or is missing) answers the
  requester alone with the mismatch error and returns the registry as it was, so the client
  slot stays empty and no field of the room changes.
\<close>

theorem join_room_mismatch:
  assumes "wf_server st" and "map_of (rooms st) rid = Some m" and "client_sid m = None"
    and "vh \<noteq> Some (video_hash m)"
  shows "handle_join_room sid now \<lparr>jd_room_id = Some rid, jd_video_hash = vh\<rparr> st =
           Inr (st, [Emit ''error'' (Message
             ''Video file mismatch! Make sure you selected the same file as the host.'') sid])"
  using assms wf_roomD[OF assms(1,2)] by (simp add: handle_join_room_def)

theorem join_room_mismatch_witness:
  "wf_server created_server
   \<and> map_of (rooms created_server) ''r1'' = Some created_room
   \<and> client_sid created_room = None
   \<and> Some ''xyz'' \<noteq> Some (video_hash created_room)
   \<and> handle_join_room ''B'' 11 \<lparr>jd_room_id = Some ''r1'', jd_video_hash = Some ''xyz''\<rparr>
        created_server = Inr (created_server, [Emit ''error'' (Message
          ''Video file mismatch! Make sure you selected the same file as the host.'') ''B''])
   \<and> map_option client_sid (map_of (rooms created_server) ''r1'') = Some None"
proof -
  have h1: "wf_server created_server" by (rule wf_created_server)
  have h2: "map_of (rooms created_server) ''r1'' = Some created_room"
    by (simp add: example_defs)
  have h3: "client_sid created_room = None" by (simp add: example_defs)
  have h4: "Some ''xyz'' \<noteq> Some (video_hash created_room)" by (simp add: example_defs)
  from join_room_mismatch[OF h1 h2 h3 h4] h1 h2 h3 h4 show ?thesis by simp
qed

subsection \<open>The cleanup sweep\<close>

lemma delete_rooms_rooms:
  "rooms (delete_rooms ds st) = filter (\<lambda>p. fst p \<notin> set ds) (rooms st)"
proof (induction ds arbitrary: st)
  case Nil
  show ?case by simp
next
  case (Cons rid ds)
  let ?st1 = "if map_of (rooms st) rid = None then st
              else let st1 = st\<lparr>rooms := AList.delete rid (rooms st)\<rparr>
                   in if rid \<in> set (room_locks st1)
                      then st1\<lparr>room_locks := removeAll rid (room_locks st1)\<rparr>
                      else st1"
  have del: "AList.delete rid (rooms st) = filter (\<lambda>p. fst p \<noteq> rid) (rooms st)"
    by (simp add: AList.delete_eq case_prod_beta' eq_commute)
  have absent: "map_of (rooms st) rid = None \<Longrightarrow>
      filter (\<lambda>p. fst p \<noteq> rid) (rooms st) = rooms st"
    by (auto simp: map_of_eq_None_iff filter_id_conv)
  have step: "rooms ?st1 = filter (\<lambda>p. fst p \<noteq> rid) (rooms st)"
    by (simp add: del absent Let_def)
  have "rooms (delete_rooms (rid # ds) st) = rooms (delete_rooms ds ?st1)"
    by simp
  also have "\<dots> = filter (\<lambda>p. fst p \<notin> set ds) (rooms ?st1)"
    by (rule Cons.IH)
  also have "\<dots> = filter (\<lambda>p. fst p \<notin> set (rid # ds)) (rooms st)"
    unfolding step by (auto intro: filter_cong)
  finally show ?case .
qed

lemma set_collect_to_delete:
  "rid \<in> set (collect_to_delete now rs) \<longleftrightarrow>
     (\<exists>m. (rid, m) \<in> set rs \<and> ((host_sid m = None \<and> client_sid m = None)
                                    \<or> double_sub now (last_active m) > ROOM_TTL_SECONDS))"
  by (induction now rs rule: collect_to_delete.induct) auto

text \<open>The rounding of a number whose binade is known.\<close>

lemma double_round_binade:
  assumes "2 powr of_int e \<le> \<bar>x\<bar>" and "\<bar>x\<bar> < 2 powr of_int (e + 1)" and "- 1022 \<le> e"
  shows "double_round x =
           of_int (round_half_even (x / 2 powr of_int (e - 52))) * 2 powr of_int (e - 52)"
proof -
  have "0 < (2::real) powr of_int e" by simp
  with assms(1) have pos: "0 < \<bar>x\<bar>" by linarith
  then have nz: "x \<noteq> 0" by auto
  have "\<lfloor>log 2 \<bar>x\<bar>\<rfloor> = e"
    using assms(1,2) pos by (subst floor_log_eq_powr_iff) (simp_all add: add.commute)
  with assms(3) have "double_exponent x = e" by (simp add: double_exponent_def)
  with nz show ?thesis by (simp add: double_round_def Let_def)
qed

lemma double_sub_5000_10: "double_sub 5000 10 = 4990"
proof -
  have "double_round (5000 - 10) =
        of_int (round_half_even ((5000 - 10) / 2 powr of_int (12 - 52))) * 2 powr of_int (12 - 52)"
    by (rule double_round_binade) simp_all
  also have "\<dots> = 4990"
    by (simp add: round_half_even_def Let_def powr_minus field_simps)
  finally show ?thesis by (simp add: double_sub_def)
qed

lemma double_sub_5000_4000: "double_sub 5000 4000 = 1000"
proof -
  have "double_round (5000 - 4000) =
        of_int (round_half_even ((5000 - 4000) / 2 powr of_int (9 - 52))) * 2 powr of_int (9 - 52)"
    by (rule double_round_binade) simp_all
  also have "\<dots> = 1000"
    by (simp add: round_half_even_def Let_def powr_minus field_simps)
  finally show ?thesis by (simp add: double_sub_def)
qed

text \<open>
  The exact difference \<open>3600 + 2 ^ (- 43)\<close> lies a quarter of the spacing \<open>2 ^ (- 41)\<close> above
  3600, so the float difference is 3600.
\<close>

lemma double_sub_edge: "double_sub 4000 (400 - 1 / 2 ^ 43) = 3600"
proof -
  have "double_round (4000 - (400 - 1 / 2 ^ 43)) =
        of_int (round_half_even ((4000 - (400 - 1 / 2 ^ 43)) / 2 powr of_int (11 - 52)))
          * 2 powr of_int (11 - 52)"
    by (rule double_round_binade) simp_all
  also have "\<dots> = 3600"
    by (simp add: round_half_even_def Let_def powr_minus field_simps)
  finally show ?thesis by (simp add: double_sub_def)
qed

text \<open>
  Claim C7, as amended. For every registry (a dictionary: its keys are distinct) and every
  time \<open>now\<close>, one pass of the sweep leaves exactly the rooms that have a peer in some slot
  and whose age, the float difference of \<open>now\<close> and \<open>last_active\<close>, is at most 3600 seconds,
  each with all its fields and in the same order. So it deletes exactly the rooms with
  both slots empty or with an age, so computed, of more than 3600 seconds, occupied or not.
\<close>

theorem cleanup_pass_reclaims:
  assumes "distinct (map fst (rooms st))"
  shows "rooms (cleanup_pass now st) =
           filter (\<lambda>p. \<not> ((host_sid (snd p) = None \<and> client_sid (snd p) = None)
                            \<or> double_sub now (last_active (snd p)) > 3600)) (rooms st)"
proof -
  have inj: "inj_on fst (set (rooms st))"
    using assms by (simp add: distinct_map)
  have "fst p \<in> set (collect_to_delete now (rooms st)) \<longleftrightarrow>
          ((host_sid (snd p) = None \<and> client_sid (snd p) = None)
           \<or> double_sub now (last_active (snd p)) > 3600)"
    if "p \<in> set (rooms st)" for p
  proof
    assume "fst p \<in> set (collect_to_delete now (rooms st))"
    then obtain m where "(fst p, m) \<in> set (rooms st)"
      and dm: "(host_sid m = None \<and> client_sid m = None)
              \<or> double_sub now (last_active m) > ROOM_TTL_SECONDS"
      unfolding set_collect_to_delete by blast
    then obtain q where q: "q \<in> set (rooms st)" "fst q = fst p"
      and d: "(host_sid (snd q) = None \<and> client_sid (snd q) = None)
              \<or> double_sub now (last_active (snd q)) > ROOM_TTL_SECONDS"
      by force
    from inj q that have "q = p" by (auto dest: inj_onD)
    with d show "(host_sid (snd p) = None \<and> client_sid (snd p) = None)
           \<or> double_sub now (last_active (snd p)) > 3600"
      by (simp add: ROOM_TTL_SECONDS_def)
  next
    assume "(host_sid (snd p) = None \<and> client_sid (snd p) = None)
           \<or> double_sub now (last_active (snd p)) > 3600"
    with that have "(fst p, snd p) \<in> set (rooms st) \<and>
        ((host_sid (snd p) = None \<and> client_sid (snd p) = None)
         \<or> double_sub now (last_active (snd p)) > ROOM_TTL_SECONDS)"
      by (simp add: ROOM_TTL_SECONDS_def)
    then show "fst p \<in> set (collect_to_delete now (rooms st))"
      unfolding set_collect_to_delete by blast
  qed
  then show ?thesis
    unfolding cleanup_pass_def delete_rooms_rooms by (intro filter_cong) auto
qed

theorem cleanup_pass_reclaims_witness:
  "distinct (map fst (rooms sweep_server))
   \<and> rooms (cleanup_pass 5000 sweep_server) = [(''r3'', created_room\<lparr>last_active := 4000\<rparr>)]
   \<and> filter (\<lambda>p. \<not> ((host_sid (snd p) = None \<and> client_sid (snd p) = None)
                     \<or> double_sub 5000 (last_active (snd p)) > 3600)) (rooms sweep_server)
       = [(''r3'', created_room\<lparr>last_active := 4000\<rparr>)]"
proof -
  have h: "distinct (map fst (rooms sweep_server))"
    by (simp add: sweep_server_def)
  have e: "filter (\<lambda>p. \<not> ((host_sid (snd p) = None \<and> client_sid (snd p) = None)
                     \<or> double_sub 5000 (last_active (snd p)) > 3600)) (rooms sweep_server)
       = [(''r3'', created_room\<lparr>last_active := 4000\<rparr>)]"
    by (simp add: sweep_server_def created_room_def double_sub_5000_10 double_sub_5000_4000)
  from cleanup_pass_reclaims[OF h, of 5000] h e show ?thesis by simp
qed

text \<open>
  The claim as first stated, with the age taken as the exact difference, fails near the
  threshold. At time 4000 the paired room of \<open>edge_server\<close> is more than 3600 seconds old,
  but the float difference is 3600, which is not greater than the TTL, and the sweep keeps
  the room.
\<close>

theorem cleanup_pass_keeps_room_past_ttl_counterexample:
  "map_option host_sid (map_of (rooms edge_server) ''r1'') = Some (Some ''A'')
   \<and> map_option client_sid (map_of (rooms edge_server) ''r1'') = Some (Some ''B'')
   \<and> map_option last_active (map_of (rooms edge_server) ''r1'') = Some (400 - 1 / 2 ^ 43)
   \<and> 4000 - (400 - 1 / 2 ^ 43) > (3600::real)
   \<and> double_sub 4000 (400 - 1 / 2 ^ 43) = 3600
   \<and> collect_to_delete 4000 (rooms edge_server) = []
   \<and> cleanup_pass 4000 edge_server = edge_server"
proof -
  have d: "double_sub 4000 (3518437208883199 / 8796093022208) = 3600"
    using double_sub_edge by simp
  show ?thesis
    by (simp add: cleanup_pass_def edge_server_def created_room_def ROOM_TTL_SECONDS_def d)
qed

subsection \<open>Disconnect\<close>

lemma disconnect_loop_keys: "map fst (disconnect_loop sid clock k rs) = map fst rs"
  by (induction sid clock k rs rule: disconnect_loop.induct) (simp_all add: Let_def)

lemma disconnect_loop_nth:
  "i < length rs \<Longrightarrow>
   snd (disconnect_loop sid clock k rs ! i) =
     (let m = snd (rs ! i) in
      if host_sid m = Some sid \<or> client_sid m = Some sid
      then m\<lparr>host_sid := (if host_sid m = Some sid then None else host_sid m),
             client_sid := (if client_sid m = Some sid then None else client_sid m),
             last_active := clock (k + length (filter
               (\<lambda>p. host_sid (snd p) = Some sid \<or> client_sid (snd p) = Some sid) (take i rs)))\<rparr>
      else m)"
proof (induction sid clock k rs arbitrary: i rule: disconnect_loop.induct)
  case (1 sid clock k)
  then show ?case by simp
next
  case (2 sid clock k room_id meta rest)
  show ?case
  proof (cases i)
    case 0
    then show ?thesis by (simp add: Let_def)
  next
    case (Suc j)
    with "2.prems" have j: "j < length rest" by simp
    show ?thesis
    proof (cases "host_sid meta = Some sid \<or> client_sid meta = Some sid")
      case True
      then have "snd (disconnect_loop sid clock k ((room_id, meta) # rest) ! i)
                 = snd (disconnect_loop sid clock (Suc k) rest ! j)"
        using Suc by (auto simp: Let_def)
      also have "\<dots> = (let m = snd (rest ! j) in
          if host_sid m = Some sid \<or> client_sid m = Some sid
          then m\<lparr>host_sid := (if host_sid m = Some sid then None else host_sid m),
                 client_sid := (if client_sid m = Some sid then None else client_sid m),
                 last_active := clock (Suc k + length (filter
                   (\<lambda>p. host_sid (snd p) = Some sid \<or> client_sid (snd p) = Some sid)
                   (take j rest)))\<rparr>
          else m)"
        by (rule "2.IH"(1)[OF refl refl refl _ j]) (use True in auto)
      finally show ?thesis using True Suc by (simp add: Let_def)
    next
      case False
      then have "snd (disconnect_loop sid clock k ((room_id, meta) # rest) ! i)
                 = snd (disconnect_loop sid clock k rest ! j)"
        using Suc by (auto simp: Let_def)
      also have "\<dots> = (let m = snd (rest ! j) in
          if host_sid m = Some sid \<or> client_sid m = Some sid
          then m\<lparr>host_sid := (if host_sid m = Some sid then None else host_sid m),
                 client_sid := (if client_sid m = Some sid then None else client_sid m),
                 last_active := clock (k + length (filter
                   (\<lambda>p. host_sid (snd p) = Some sid \<or> client_sid (snd p) = Some sid)
                   (take j rest)))\<rparr>
          else m)"
        by (rule "2.IH"(2)[OF refl refl refl _ j]) (use False in auto)
      finally show ?thesis using False Suc by (simp add: Let_def)
    qed
  qed
qed

text \<open>
  Claim C8. For every connection id and registry, \<open>disconnect\<close> keeps the room ids of the
  registry as they are, in order (no room is removed, none added) and keeps the locks. The
  room at each position keeps all its fields if the connection is in neither of its slots;
  otherwise each slot holding the connection is set to \<open>None\<close>, the other slot and the
  remaining fields stay, and \<open>last_active\<close> becomes the clock reading taken for that room
  (the \<open>n\<close>-th reading, \<open>n\<close> being the number of rooms changed before it).
\<close>

theorem disconnect_frame:
  "map fst (rooms (handle_disconnect sid clock st)) = map fst (rooms st)
   \<and> room_locks (handle_disconnect sid clock st) = room_locks st
   \<and> (\<forall>i < length (rooms st).
        snd (rooms (handle_disconnect sid clock st) ! i) =
          (let m = snd (rooms st ! i) in
           if host_sid m = Some sid \<or> client_sid m = Some sid
           then m\<lparr>host_sid := (if host_sid m = Some sid then None else host_sid m),
                  client_sid := (if client_sid m = Some sid then None else client_sid m),
                  last_active := clock (length (filter
                    (\<lambda>p. host_sid (snd p) = Some sid \<or> client_sid (snd p) = Some sid)
                    (take i (rooms st))))\<rparr>
           else m))"
proof (intro conjI allI impI)
  show "map fst (rooms (handle_disconnect sid clock st)) = map fst (rooms st)"
    by (simp add: handle_disconnect_def disconnect_loop_keys)
  show "room_locks (handle_disconnect sid clock st) = room_locks st"
    by (simp add: handle_disconnect_def)
next
  fix i
  assume "i < length (rooms st)"
  from disconnect_loop_nth[OF this, of sid clock 0]
  show "snd (rooms (handle_disconnect sid clock st) ! i) =
          (let m = snd (rooms st ! i) in
           if host_sid m = Some sid \<or> client_sid m = Some sid
           then m\<lparr>host_sid := (if host_sid m = Some sid then None else host_sid m),
                  client_sid := (if client_sid m = Some sid then None else client_sid m),
                  last_active := clock (length (filter
                    (\<lambda>p. host_sid (snd p) = Some sid \<or> client_sid (snd p) = Some sid)
                    (take i (rooms st))))\<rparr>
           else m)"
    by (simp add: handle_disconnect_def Let_def)
qed

theorem disconnect_frame_witness:
  "rooms (handle_disconnect ''A'' example_clock busy_server) =
     [(''r1'', created_room\<lparr>host_sid := None, client_sid := Some ''B'', last_active := 20\<rparr>),
      (''r2'', created_room\<lparr>host_sid := Some ''C''\<rparr>),
      (''r3'', created_room\<lparr>host_sid := Some ''D'', client_sid := None, last_active := 21\<rparr>),
      (''r4'', created_room\<lparr>host_sid := None, client_sid := None, last_active := 22\<rparr>)]
   \<and> map fst (rooms (handle_disconnect ''A'' example_clock busy_server))
       = map fst (rooms busy_server)
   \<and> 2 < length (rooms busy_server)
   \<and> snd (rooms (handle_disconnect ''A'' example_clock busy_server) ! 2) =
       (snd (rooms busy_server ! 2))\<lparr>client_sid := None,
          last_active := example_clock (length (filter
            (\<lambda>p. host_sid (snd p) = Some ''A'' \<or> client_sid (snd p) = Some ''A'')
            (take 2 (rooms busy_server))))\<rparr>"
proof -
  have e: "rooms (handle_disconnect ''A'' example_clock busy_server) =
     [(''r1'', created_room\<lparr>host_sid := None, client_sid := Some ''B'', last_active := 20\<rparr>),
      (''r2'', created_room\<lparr>host_sid := Some ''C''\<rparr>),
      (''r3'', created_room\<lparr>host_sid := Some ''D'', client_sid := None, last_active := 21\<rparr>),
      (''r4'', created_room\<lparr>host_sid := None, client_sid := None, last_active := 22\<rparr>)]"
    by (simp add: handle_disconnect_def busy_server_def created_room_def example_clock_def Let_def)
  have l: "2 < length (rooms busy_server)" by (simp add: busy_server_def)
  have n: "snd (rooms busy_server ! 2) = created_room\<lparr>host_sid := Some ''D'', client_sid := Some ''A''\<rparr>"
    by (simp add: busy_server_def)
  from disconnect_frame[of "''A''" example_clock busy_server] l
  have "snd (rooms (handle_disconnect ''A'' example_clock busy_server) ! 2) =
       (snd (rooms busy_server ! 2))\<lparr>client_sid := None,
          last_active := example_clock (length (filter
            (\<lambda>p. host_sid (snd p) = Some ''A'' \<or> client_sid (snd p) = Some ''A'')
            (take 2 (rooms busy_server))))\<rparr>"
    by (simp add: n Let_def created_room_def)
  moreover from disconnect_frame[of "''A''" example_clock busy_server]
  have "map fst (rooms (handle_disconnect ''A'' example_clock busy_server))
       = map fst (rooms busy_server)" by simp
  ultimately show ?thesis using e l by simp
qed

subsection \<open>A successful join\<close>

lemma join_existing:
  assumes "rid \<noteq> []" and "rid \<in> set (room_locks st)" and "map_of (rooms st) rid = Some m"
    and "client_sid m = None"
  shows "handle_join_room sid now \<lparr>jd_room_id = Some rid, jd_video_hash = Some (video_hash m)\<rparr> st =
    Inr (st\<lparr>rooms := AList.update rid (m\<lparr>client_sid := Some sid, last_active := now\<rparr>) (rooms st)\<rparr>,
         [Join_room sid rid, Emit ''sync_state'' (Sync_state (state m)) sid]
         @ emit_if (host_sid m) ''peer_joined'' (Message ''Peer joined'')
         @ [Emit ''ready_for_call'' No_payload rid])"
  using assms by (simp add: handle_join_room_def Let_def)

text \<open>
  Claim C9. \<open>join_room\<close> does not compare the requester with the host of the room. In a
  well-formed registry, when the connection in the host slot of a room with an empty client
  slot joins that room with the room's fingerprint, the join succeeds, and in the registry
  it returns the room has that connection in both slots. Such a registry is reached from
  the empty one by a \<open>create_room\<close> and a \<open>join_room\<close> of the same connection.
\<close>

theorem host_joins_own_room:
  assumes "wf_server st" and "map_of (rooms st) rid = Some m"
    and "host_sid m = Some sid" and "client_sid m = None"
  shows "handle_join_room sid now \<lparr>jd_room_id = Some rid, jd_video_hash = Some (video_hash m)\<rparr> st =
    Inr (st\<lparr>rooms := AList.update rid (m\<lparr>client_sid := Some sid, last_active := now\<rparr>) (rooms st)\<rparr>,
         [Join_room sid rid, Emit ''sync_state'' (Sync_state (state m)) sid]
         @ emit_if (Some sid) ''peer_joined'' (Message ''Peer joined'')
         @ [Emit ''ready_for_call'' No_payload rid])
    \<and> map_option host_sid (map_of (AList.update rid
          (m\<lparr>client_sid := Some sid, last_active := now\<rparr>) (rooms st)) rid) = Some (Some sid)
    \<and> map_option client_sid (map_of (AList.update rid
          (m\<lparr>client_sid := Some sid, last_active := now\<rparr>) (rooms st)) rid) = Some (Some sid)"
  using join_existing[OF wf_roomD[OF assms(1,2)] assms(2,4), of sid now] assms(3)
  by (simp add: update_conv')

theorem host_joins_own_room_witness:
  "handle_create_room ''A'' 10 example_gen
      \<lparr>cd_video_hash = Some ''abc123'', cd_filename = Some ''movie.mp4''\<rparr> initial_server
     = Some (created_server,
             [Join_room ''A'' ''r1'', Emit ''room_created'' (Room_created ''r1'' ''movie.mp4'') ''A''])
   \<and> wf_server created_server
   \<and> map_of (rooms created_server) ''r1'' = Some created_room
   \<and> host_sid created_room = Some ''A''
   \<and> client_sid created_room = None
   \<and> handle_join_room ''A'' 11 \<lparr>jd_room_id = Some ''r1'', jd_video_hash = Some ''abc123''\<rparr>
        created_server
      = Inr (self_joined_server,
             [Join_room ''A'' ''r1'',
              Emit ''sync_state'' (Sync_state \<lparr>time = 0, paused = True\<rparr>) ''A'',
              Emit ''peer_joined'' (Message ''Peer joined'') ''A'',
              Emit ''ready_for_call'' No_payload ''r1''])
   \<and> map_option host_sid (map_of (rooms self_joined_server) ''r1'') = Some (Some ''A'')
   \<and> map_option client_sid (map_of (rooms self_joined_server) ''r1'') = Some (Some ''A'')"
proof -
  have c: "handle_create_room ''A'' 10 example_gen
      \<lparr>cd_video_hash = Some ''abc123'', cd_filename = Some ''movie.mp4''\<rparr> initial_server
     = Some (created_server,
             [Join_room ''A'' ''r1'', Emit ''room_created'' (Room_created ''r1'' ''movie.mp4'') ''A''])"
    by (simp add: handle_create_room_def truthy_def fresh_room_id.simps example_defs)
  have h1: "wf_server created_server" by (rule wf_created_server)
  have h2: "map_of (rooms created_server) ''r1'' = Some created_room"
    by (simp add: example_defs)
  have h3: "host_sid created_room = Some ''A''" by (simp add: example_defs)
  have h4: "client_sid created_room = None" by (simp add: example_defs)
  have s: "self_joined_server = created_server\<lparr>rooms := AList.update ''r1''
      (created_room\<lparr>client_sid := Some ''A'', last_active := 11\<rparr>) (rooms created_server)\<rparr>"
    by (simp add: example_defs)
  have v: "video_hash created_room = ''abc123''" "state created_room = \<lparr>time = 0, paused = True\<rparr>"
    by (simp_all add: example_defs)
  from host_joins_own_room[OF h1 h2 h3 h4, of 11] c h1 h2 h3 h4
  show ?thesis by (simp add: s v emit_if_def)
qed

subsection \<open>Control actions outside play, pause and seek\<close>

text \<open>
  Claim C10. In a well-formed registry, a \<open>control\<close> event for an existing room whose action
  is neither \<open>play\<close> nor \<open>pause\<close> nor \<open>seek\<close> (or is missing) and whose time converts to
  \<open>t\<close> is not rejected: the room's time becomes \<open>t\<close>, \<open>paused\<close> stays, \<open>last_active\<close> becomes
  the current time, and the updated playback state goes as \<open>sync_state\<close> to the counterpart
  of the sender. The result is the one of the same event with action \<open>seek\<close>.
\<close>

theorem unknown_action_like_seek:
  assumes "wf_server st" and "map_of (rooms st) rid = Some m"
    and "a \<noteq> Some ''play''" and "a \<noteq> Some ''pause''" and "a \<noteq> Some ''seek''"
  shows "handle_control sid now \<lparr>ct_room_id = Some rid, ct_action = a, ct_time = Time t\<rparr> st =
    Inr (st\<lparr>rooms := AList.update rid
              (m\<lparr>state := \<lparr>time = t, paused = paused (state m)\<rparr>, last_active := now\<rparr>)
              (rooms st)\<rparr>,
         emit_if (if host_sid m = Some sid then client_sid m else host_sid m) ''sync_state''
           (Sync_state \<lparr>time = t, paused = paused (state m)\<rparr>))
    \<and> handle_control sid now \<lparr>ct_room_id = Some rid, ct_action = a, ct_time = Time t\<rparr> st =
      handle_control sid now \<lparr>ct_room_id = Some rid, ct_action = Some ''seek'', ct_time = Time t\<rparr> st"
proof -
  have f: "float_of (Time t) (time (state m)) = Inr t" by (simp add: float_of_def)
  note r = wf_roomD[OF assms(1,2)]
  from control_existing[OF r assms(2) f, of sid now a]
       control_existing[OF r assms(2) f, of sid now "Some ''seek''"] assms(3,4)
  show ?thesis by (simp add: counterpart_def)
qed

theorem unknown_action_like_seek_witness:
  "wf_server paired_server
   \<and> map_of (rooms paired_server) ''r1'' = Some (created_room\<lparr>client_sid := Some ''B'', last_active := 11\<rparr>)
   \<and> Some ''rewind'' \<noteq> Some ''play'' \<and> Some ''rewind'' \<noteq> Some ''pause''
   \<and> Some ''rewind'' \<noteq> Some ''seek''
   \<and> handle_control ''A'' 12
        \<lparr>ct_room_id = Some ''r1'', ct_action = Some ''rewind'', ct_time = Time 42.5\<rparr> paired_server
      = Inr (\<lparr>rooms = [(''r1'', created_room\<lparr>client_sid := Some ''B'',
                          state := \<lparr>time = 42.5, paused = True\<rparr>, last_active := 12\<rparr>)],
              room_locks = [''r1'']\<rparr>,
             [Emit ''sync_state'' (Sync_state \<lparr>time = 42.5, paused = True\<rparr>) ''B''])"
proof -
  have h1: "wf_server paired_server" by (rule wf_paired_server)
  have h2: "map_of (rooms paired_server) ''r1''
              = Some (created_room\<lparr>client_sid := Some ''B'', last_active := 11\<rparr>)"
    by (simp add: example_defs)
  have h3: "Some ''rewind'' \<noteq> Some ''play''" by simp
  have h4: "Some ''rewind'' \<noteq> Some ''pause''" by simp
  have h5: "Some ''rewind'' \<noteq> Some ''seek''" by simp
  from unknown_action_like_seek[OF h1 h2 h3 h4 h5, of "''A''" 12 "42.5"] h1 h2
  show ?thesis by (simp add: example_defs emit_if_def)
qed

subsection \<open>Routing to the counterpart\<close>

lemma emit_if_Some: "t \<noteq> [] \<Longrightarrow> emit_if (Some t) ev d = [Emit ev d t]"
  by (simp add: emit_if_def)

lemma emit_if_None: "emit_if None ev d = []"
  by (simp add: emit_if_def)

lemma no_echo_unless_self_paired:
  assumes "Emit ev d sid \<in> set (emit_if (counterpart sid m) ev' d')"
  shows "host_sid m = Some sid \<and> client_sid m = Some sid"
  using assms by (auto simp: emit_if_def counterpart_def split: option.splits if_splits)

text \<open>
  Claim C2. In a well-formed registry, for an existing room and a sender \<open>sid\<close>, a \<open>control\<close>
  event, a \<open>state_update\<close> event (each with a time that converts) and an \<open>offer\<close>, \<open>answer\<close>
  or \<open>ice_candidate\<close> event all address their message to the counterpart of the sender: the
  client slot if the sender equals the stored host, the host slot otherwise. So a sender in
  neither slot has the host slot as its target; a target holding a (non-empty) connection id
  receives exactly one message; and when the target slot is empty no message is sent, while
  the registry returned by \<open>control\<close> and \<open>state_update\<close> still carries the update.
\<close>

theorem counterpart_routing:
  assumes "wf_server st" and "map_of (rooms st) rid = Some m"
    and "float_of tf (time (state m)) = Inr tv" and "float_of tf' 0 = Inr tv'"
  shows
    "handle_control sid now \<lparr>ct_room_id = Some rid, ct_action = a, ct_time = tf\<rparr> st =
       Inr (st\<lparr>rooms := AList.update rid
                 (m\<lparr>state := \<lparr>time = tv, paused = (if a = Some ''play'' then False
                                                    else if a = Some ''pause'' then True
                                                    else paused (state m))\<rparr>,
                    last_active := now\<rparr>) (rooms st)\<rparr>,
            emit_if (counterpart sid m) ''sync_state''
              (Sync_state \<lparr>time = tv, paused = (if a = Some ''play'' then False
                                                 else if a = Some ''pause'' then True
                                                 else paused (state m))\<rparr>))
     \<and> handle_state_update sid now \<lparr>su_room_id = Some rid, su_time = tf', su_paused = p\<rparr> st =
       Inr (st\<lparr>rooms := AList.update rid
                 (m\<lparr>state := \<lparr>time = tv', paused = (case p of None \<Rightarrow> True | Some b \<Rightarrow> b)\<rparr>,
                    last_active := now\<rparr>) (rooms st)\<rparr>,
            emit_if (counterpart sid m) ''sync_state''
              (Sync_state \<lparr>time = tv', paused = (case p of None \<Rightarrow> True | Some b \<Rightarrow> b)\<rparr>))
     \<and> handle_offer sid \<lparr>sg_room_id = Some rid, sg_value = v\<rparr> st =
         emit_if (counterpart sid m) ''offer'' (Signal rid ''offer'' v)
     \<and> handle_answer sid \<lparr>sg_room_id = Some rid, sg_value = v\<rparr> st =
         emit_if (counterpart sid m) ''answer'' (Signal rid ''answer'' v)
     \<and> handle_ice_candidate sid \<lparr>sg_room_id = Some rid, sg_value = v\<rparr> st =
         emit_if (counterpart sid m) ''ice_candidate'' (Signal rid ''candidate'' v)
     \<and> counterpart sid m = (if host_sid m = Some sid then client_sid m else host_sid m)
     \<and> (host_sid m \<noteq> Some sid \<and> client_sid m \<noteq> Some sid \<longrightarrow> counterpart sid m = host_sid m)
     \<and> (\<forall>t. counterpart sid m = Some t \<and> t \<noteq> [] \<longrightarrow>
            emit_if (counterpart sid m) ev d = [Emit ev d t])
     \<and> (counterpart sid m = None \<longrightarrow> emit_if (counterpart sid m) ev d = [])"
proof -
  note r = wf_roomD[OF assms(1,2)]
  have c: "handle_control sid now \<lparr>ct_room_id = Some rid, ct_action = a, ct_time = tf\<rparr> st =
       Inr (st\<lparr>rooms := AList.update rid
                 (m\<lparr>state := \<lparr>time = tv, paused = (if a = Some ''play'' then False
                                                    else if a = Some ''pause'' then True
                                                    else paused (state m))\<rparr>,
                    last_active := now\<rparr>) (rooms st)\<rparr>,
            emit_if (counterpart sid m) ''sync_state''
              (Sync_state \<lparr>time = tv, paused = (if a = Some ''play'' then False
                                                 else if a = Some ''pause'' then True
                                                 else paused (state m))\<rparr>))"
    by (rule control_existing[OF r assms(2,3)])
  have h: "handle_state_update sid now \<lparr>su_room_id = Some rid, su_time = tf', su_paused = p\<rparr> st =
       Inr (st\<lparr>rooms := AList.update rid
                 (m\<lparr>state := \<lparr>time = tv', paused = (case p of None \<Rightarrow> True | Some b \<Rightarrow> b)\<rparr>,
                    last_active := now\<rparr>) (rooms st)\<rparr>,
            emit_if (counterpart sid m) ''sync_state''
              (Sync_state \<lparr>time = tv', paused = (case p of None \<Rightarrow> True | Some b \<Rightarrow> b)\<rparr>))"
    by (rule state_update_existing[OF r assms(2,4)])
  have s: "handle_offer sid \<lparr>sg_room_id = Some rid, sg_value = v\<rparr> st =
             emit_if (counterpart sid m) ''offer'' (Signal rid ''offer'' v)"
    "handle_answer sid \<lparr>sg_room_id = Some rid, sg_value = v\<rparr> st =
             emit_if (counterpart sid m) ''answer'' (Signal rid ''answer'' v)"
    "handle_ice_candidate sid \<lparr>sg_room_id = Some rid, sg_value = v\<rparr> st =
             emit_if (counterpart sid m) ''ice_candidate'' (Signal rid ''candidate'' v)"
    unfolding handle_offer_def handle_answer_def handle_ice_candidate_def
    by (rule relay_existing[OF r(1) assms(2)])+
  have t: "counterpart sid m = (if host_sid m = Some sid then client_sid m else host_sid m)"
    by (simp add: counterpart_def)
  have e: "\<forall>t. counterpart sid m = Some t \<and> t \<noteq> [] \<longrightarrow>
            emit_if (counterpart sid m) ev d = [Emit ev d t]"
    by (simp add: emit_if_Some)
  have n: "counterpart sid m = None \<longrightarrow> emit_if (counterpart sid m) ev d = []"
    by (simp add: emit_if_None)
  from c h s t e n show ?thesis by (simp only: simp_thms if_False if_True) simp
qed

theorem counterpart_routing_witness:
  "wf_server created_server
   \<and> map_of (rooms created_server) ''r1'' = Some created_room
   \<and> float_of (Time 42.5) (time (state created_room)) = Inr 42.5
   \<and> float_of (Time 7) 0 = Inr 7
   \<and> host_sid created_room \<noteq> Some ''Z'' \<and> client_sid created_room \<noteq> Some ''Z''
   \<and> counterpart ''Z'' created_room = Some ''A''
   \<and> handle_control ''Z'' 12
        \<lparr>ct_room_id = Some ''r1'', ct_action = Some ''seek'', ct_time = Time 42.5\<rparr> created_server
      = Inr (\<lparr>rooms = [(''r1'', created_room\<lparr>state := \<lparr>time = 42.5, paused = True\<rparr>,
                                              last_active := 12\<rparr>)],
              room_locks = [''r1'']\<rparr>,
             [Emit ''sync_state'' (Sync_state \<lparr>time = 42.5, paused = True\<rparr>) ''A''])
   \<and> handle_offer ''Z'' \<lparr>sg_room_id = Some ''r1'', sg_value = Some ''sdp''\<rparr> created_server
      = [Emit ''offer'' (Signal ''r1'' ''offer'' (Some ''sdp'')) ''A'']
   \<and> counterpart ''A'' created_room = None
   \<and> handle_control ''A'' 12
        \<lparr>ct_room_id = Some ''r1'', ct_action = Some ''seek'', ct_time = Time 42.5\<rparr> created_server
      = Inr (\<lparr>rooms = [(''r1'', created_room\<lparr>state := \<lparr>time = 42.5, paused = True\<rparr>,
                                              last_active := 12\<rparr>)],
              room_locks = [''r1'']\<rparr>, [])
   \<and> handle_state_update ''A'' 12
        \<lparr>su_room_id = Some ''r1'', su_time = Time 7, su_paused = Some False\<rparr> created_server
      = Inr (\<lparr>rooms = [(''r1'', created_room\<lparr>state := \<lparr>time = 7, paused = False\<rparr>,
                                              last_active := 12\<rparr>)],
              room_locks = [''r1'']\<rparr>, [])
   \<and> handle_ice_candidate ''A'' \<lparr>sg_room_id = Some ''r1'', sg_value = Some ''c''\<rparr> created_server
      = []"
proof -
  have h1: "wf_server created_server" by (rule wf_created_server)
  have h2: "map_of (rooms created_server) ''r1'' = Some created_room"
    by (simp add: example_defs)
  have h3: "float_of (Time 42.5) (time (state created_room)) = Inr 42.5"
    by (simp add: float_of_def)
  have h4: "float_of (Time 7) 0 = Inr 7" by (simp add: float_of_def)
  have z: "host_sid created_room \<noteq> Some ''Z'' \<and> client_sid created_room \<noteq> Some ''Z''"
    by (simp add: example_defs)
  have cz: "counterpart ''Z'' created_room = Some ''A''"
    by (simp add: counterpart_def example_defs)
  have ca: "counterpart ''A'' created_room = None"
    by (simp add: counterpart_def example_defs)
  from counterpart_routing[OF h1 h2 h3 h4, of "''Z''" 12 "Some ''seek''" "Some False" "Some ''sdp''"]
       counterpart_routing[OF h1 h2 h3 h4, of "''A''" 12 "Some ''seek''" "Some False" "Some ''c''"]
       h1 h2 h3 h4 z
  show ?thesis
    by (simp add: cz ca emit_if_def example_defs)
qed

subsection \<open>Runs of control and heartbeat events\<close>

lemma update_existing_keys:
  "map_of rs r = Some m \<Longrightarrow> map fst (AList.update r m' rs) = map fst rs"
  by (auto simp: update_keys dest: map_of_SomeD intro: rev_image_eqI)

lemma handle_control_keys:
  assumes "handle_control sid now d st = Inr (st', effs)"
  shows "map fst (rooms st') = map fst (rooms st) \<and> room_locks st' = room_locks st"
  using assms
  by (auto simp: handle_control_def Let_def update_existing_keys
           split: sum.splits option.splits if_splits)

lemma handle_state_update_keys:
  assumes "handle_state_update sid now d st = Inr (st', effs)"
  shows "map fst (rooms st') = map fst (rooms st) \<and> room_locks st' = room_locks st"
  using assms
  by (auto simp: handle_state_update_def Let_def update_existing_keys
           split: sum.splits option.splits if_splits)

lemma apply_event_keys:
  "map fst (rooms (apply_event e st)) = map fst (rooms st)
   \<and> room_locks (apply_event e st) = room_locks st"
proof (cases e)
  case (Control sid now d)
  show ?thesis
  proof (cases "handle_control sid now d st")
    case (Inl err)
    with Control show ?thesis by simp
  next
    case (Inr res)
    then have "handle_control sid now d st = Inr (fst res, snd res)" by simp
    from handle_control_keys[OF this] Control Inr show ?thesis by simp
  qed
next
  case (State_update sid now d)
  show ?thesis
  proof (cases "handle_state_update sid now d st")
    case (Inl err)
    with State_update show ?thesis by simp
  next
    case (Inr res)
    then have "handle_state_update sid now d st = Inr (fst res, snd res)" by simp
    from handle_state_update_keys[OF this] State_update Inr show ?thesis by simp
  qed
qed

lemma run_events_keys:
  "map fst (rooms (run_events es st)) = map fst (rooms st)
   \<and> room_locks (run_events es st) = room_locks st"
  by (induction es arbitrary: st) (simp_all add: apply_event_keys)

lemma run_events_wf_room:
  assumes "wf_server st" and "map_of (rooms st) rid = Some m"
  shows "wf_server (run_events es st)"
    and "\<exists>m1. map_of (rooms (run_events es st)) rid = Some m1"
proof -
  note k = run_events_keys[of es st]
  from assms(1) k show "wf_server (run_events es st)"
    by (simp add: wf_server_def)
  from assms(2) have "rid \<in> fst ` set (rooms st)"
    by (auto dest: map_of_SomeD intro: rev_image_eqI)
  with k have "rid \<in> fst ` set (rooms (run_events es st))"
    by (metis list.set_map)
  then have "map_of (rooms (run_events es st)) rid \<noteq> None"
    by (simp add: map_of_eq_None_iff)
  then show "\<exists>m1. map_of (rooms (run_events es st)) rid = Some m1" by auto
qed

lemma run_events_snoc: "run_events (es @ [e]) st = apply_event e (run_events es st)"
  by (induction es arbitrary: st) simp_all

lemma control_event_playback:
  assumes "wf_server st" and "map_of (rooms st) rid = Some m"
  shows "map_of (rooms (apply_event
           (Control sid now \<lparr>ct_room_id = Some rid, ct_action = a, ct_time = Time t\<rparr>) st)) rid =
         Some (m\<lparr>state := \<lparr>time = t, paused = (if a = Some ''play'' then False
                                                 else if a = Some ''pause'' then True
                                                 else paused (state m))\<rparr>,
                 last_active := now\<rparr>)"
proof -
  have f: "float_of (Time t) (time (state m)) = Inr t" by (simp add: float_of_def)
  show ?thesis
    by (simp add: control_existing[OF wf_roomD[OF assms] assms(2) f] update_conv')
qed

lemma state_update_event_playback:
  assumes "wf_server st" and "map_of (rooms st) rid = Some m"
  shows "map_of (rooms (apply_event
           (State_update sid now \<lparr>su_room_id = Some rid, su_time = Time t, su_paused = Some p\<rparr>)
           st)) rid =
         Some (m\<lparr>state := \<lparr>time = t, paused = p\<rparr>, last_active := now\<rparr>)"
proof -
  have f: "float_of (Time t) 0 = Inr t" by (simp add: float_of_def)
  show ?thesis
    by (simp add: state_update_existing[OF wf_roomD[OF assms] assms(2) f] update_conv')
qed

text \<open>
  Claim C6. In a well-formed registry with a room \<open>rid\<close>, let any list \<open>es\<close> of control and
  heartbeat events (from any senders, for any rooms, raising or not) be applied in order,
  and then one more event for \<open>rid\<close> with a time that converts to \<open>t\<close>. Whatever \<open>es\<close> did,
  the room then has time \<open>t\<close> and the activity time of that last event; \<open>paused\<close> is false
  after \<open>play\<close>, true after \<open>pause\<close>, the heartbeat's flag after a heartbeat, and after
  \<open>seek\<close>, which writes the time only, what \<open>es\<close> left. So the playback state consists of
  the fields the last event wrote.
\<close>

theorem last_writer_wins:
  assumes "wf_server st" and "map_of (rooms st) rid = Some m"
  shows "\<exists>pb. playback_of (run_events es st) rid = Some pb
     \<and> map_of (rooms (run_events
          (es @ [Control sid now \<lparr>ct_room_id = Some rid, ct_action = a, ct_time = Time t\<rparr>]) st)) rid
        = map_option (\<lambda>m'. m'\<lparr>state := \<lparr>time = t, paused = (if a = Some ''play'' then False
                                              else if a = Some ''pause'' then True else paused pb)\<rparr>,
                               last_active := now\<rparr>)
            (map_of (rooms (run_events es st)) rid)
     \<and> playback_of (run_events
          (es @ [Control sid now \<lparr>ct_room_id = Some rid, ct_action = Some ''play'', ct_time = Time t\<rparr>])
          st) rid = Some \<lparr>time = t, paused = False\<rparr>
     \<and> playback_of (run_events
          (es @ [Control sid now \<lparr>ct_room_id = Some rid, ct_action = Some ''pause'', ct_time = Time t\<rparr>])
          st) rid = Some \<lparr>time = t, paused = True\<rparr>
     \<and> playback_of (run_events
          (es @ [Control sid now \<lparr>ct_room_id = Some rid, ct_action = Some ''seek'', ct_time = Time t\<rparr>])
          st) rid = Some \<lparr>time = t, paused = paused pb\<rparr>
     \<and> playback_of (run_events
          (es @ [State_update sid now \<lparr>su_room_id = Some rid, su_time = Time t, su_paused = Some p\<rparr>])
          st) rid = Some \<lparr>time = t, paused = p\<rparr>
     \<and> map_option last_active (map_of (rooms (run_events
          (es @ [Control sid now \<lparr>ct_room_id = Some rid, ct_action = a, ct_time = Time t\<rparr>]) st)) rid)
        = Some now
     \<and> map_option last_active (map_of (rooms (run_events
          (es @ [State_update sid now \<lparr>su_room_id = Some rid, su_time = Time t, su_paused = Some p\<rparr>])
          st)) rid) = Some now"
proof -
  from run_events_wf_room[OF assms, of es]
  obtain m1 where wf1: "wf_server (run_events es st)"
    and m1: "map_of (rooms (run_events es st)) rid = Some m1"
    by auto
  note c = control_event_playback[OF wf1 m1]
  note h = state_update_event_playback[OF wf1 m1]
  have "playback_of (run_events es st) rid = Some (state m1)"
    by (simp add: playback_of_def m1)
  then show ?thesis
    by (intro exI[of _ "state m1"])
       (simp add: run_events_snoc playback_of_def c h m1 del: apply_event.simps)
qed

theorem last_writer_wins_witness:
  "wf_server paired_server
   \<and> map_of (rooms paired_server) ''r1''
       = Some (created_room\<lparr>client_sid := Some ''B'', last_active := 11\<rparr>)
   \<and> playback_of (run_events example_events paired_server) ''r1'' = Some \<lparr>time = 6, paused = True\<rparr>
   \<and> playback_of (run_events (example_events @
        [Control ''B'' 16 \<lparr>ct_room_id = Some ''r1'', ct_action = Some ''play'', ct_time = Time 42.5\<rparr>])
        paired_server) ''r1'' = Some \<lparr>time = 42.5, paused = False\<rparr>
   \<and> playback_of (run_events (example_events @
        [Control ''B'' 16 \<lparr>ct_room_id = Some ''r1'', ct_action = Some ''pause'', ct_time = Time 42.5\<rparr>])
        paired_server) ''r1'' = Some \<lparr>time = 42.5, paused = True\<rparr>
   \<and> playback_of (run_events (example_events @
        [Control ''B'' 16 \<lparr>ct_room_id = Some ''r1'', ct_action = Some ''seek'', ct_time = Time 42.5\<rparr>])
        paired_server) ''r1'' = Some \<lparr>time = 42.5, paused = True\<rparr>
   \<and> playback_of (run_events (example_events @
        [State_update ''B'' 16 \<lparr>su_room_id = Some ''r1'', su_time = Time 42.5, su_paused = Some False\<rparr>])
        paired_server) ''r1'' = Some \<lparr>time = 42.5, paused = False\<rparr>
   \<and> map_option last_active (map_of (rooms (run_events (example_events @
        [State_update ''B'' 16 \<lparr>su_room_id = Some ''r1'', su_time = Time 42.5, su_paused = Some False\<rparr>])
        paired_server)) ''r1'') = Some 16"
proof -
  have h1: "wf_server paired_server" by (rule wf_paired_server)
  have h2: "map_of (rooms paired_server) ''r1''
              = Some (created_room\<lparr>client_sid := Some ''B'', last_active := 11\<rparr>)"
    by (simp add: example_defs)
  have e0: "playback_of (run_events example_events paired_server) ''r1''
              = Some \<lparr>time = 6, paused = True\<rparr>"
    by (simp add: example_events_def playback_of_def handle_control_def handle_state_update_def
          float_of_def Let_def example_defs)
  from last_writer_wins[OF h1 h2, of example_events "''B''" 16 "Some ''seek''" "42.5" False]
       e0 h1 h2
  show ?thesis by auto
qed

subsection \<open>The join postcondition\<close>

lemma create_then_lookup:
  assumes "truthy (Some vh)" and "truthy (Some fn)"
    and "fresh_room_id gen 1 (gen 0) (rooms st) = Some r"
  shows "handle_create_room host now0 gen \<lparr>cd_video_hash = Some vh, cd_filename = Some fn\<rparr> st =
    Some (st\<lparr>rooms := AList.update r
                \<lparr>host_sid = Some host, client_sid = None, video_hash = vh, filename = fn,
                 state = \<lparr>time = 0, paused = True\<rparr>, last_active = now0\<rparr> (rooms st),
              room_locks := (if r \<in> set (room_locks st) then room_locks st
                             else room_locks st @ [r])\<rparr>,
          [Join_room host r, Emit ''room_created'' (Room_created r fn) host])"
  using assms by (simp add: handle_create_room_def)

text \<open>
  Claim C5, as amended. In a well-formed registry, a \<open>join_room\<close> with the room's fingerprint
  for an existing room whose client slot is empty puts the requester in the client slot,
  sets \<open>last_active\<close> to the current time and changes nothing else. It subscribes the
  requester to the room, sends the room's playback state to the requester as \<open>sync_state\<close>,
  sends \<open>peer_joined\<close> to the connection in the host slot if that slot holds a (non-empty)
  connection id and to nobody if the host slot is empty, and then sends \<open>ready_for_call\<close> to
  the room. For a room just made by \<open>create_room\<close> the playback state sent is time 0,
  paused.
\<close>

theorem join_room_success:
  assumes "wf_server st" and "map_of (rooms st) rid = Some m" and "client_sid m = None"
  shows "handle_join_room sid now \<lparr>jd_room_id = Some rid, jd_video_hash = Some (video_hash m)\<rparr> st =
    Inr (st\<lparr>rooms := AList.update rid (m\<lparr>client_sid := Some sid, last_active := now\<rparr>) (rooms st)\<rparr>,
         [Join_room sid rid, Emit ''sync_state'' (Sync_state (state m)) sid]
         @ (case host_sid m of
              None \<Rightarrow> []
            | Some h \<Rightarrow> if h = [] then [] else [Emit ''peer_joined'' (Message ''Peer joined'') h])
         @ [Emit ''ready_for_call'' No_payload rid])
    \<and> map_of (AList.update rid (m\<lparr>client_sid := Some sid, last_active := now\<rparr>) (rooms st)) rid
        = Some (m\<lparr>client_sid := Some sid, last_active := now\<rparr>)
    \<and> (truthy (Some vh) \<and> truthy (Some fn) \<and> truthy (Some host)
        \<and> fresh_room_id gen 1 (gen 0) (rooms st0) = Some r \<and> r \<noteq> [] \<longrightarrow>
        (\<exists>st1 st2.
           handle_create_room host now0 gen \<lparr>cd_video_hash = Some vh, cd_filename = Some fn\<rparr> st0
             = Some (st1, [Join_room host r, Emit ''room_created'' (Room_created r fn) host])
           \<and> handle_join_room sid now \<lparr>jd_room_id = Some r, jd_video_hash = Some vh\<rparr> st1
             = Inr (st2, [Join_room sid r,
                          Emit ''sync_state'' (Sync_state \<lparr>time = 0, paused = True\<rparr>) sid,
                          Emit ''peer_joined'' (Message ''Peer joined'') host,
                          Emit ''ready_for_call'' No_payload r])))"
proof (intro conjI impI)
  show "handle_join_room sid now \<lparr>jd_room_id = Some rid, jd_video_hash = Some (video_hash m)\<rparr> st =
    Inr (st\<lparr>rooms := AList.update rid (m\<lparr>client_sid := Some sid, last_active := now\<rparr>) (rooms st)\<rparr>,
         [Join_room sid rid, Emit ''sync_state'' (Sync_state (state m)) sid]
         @ (case host_sid m of
              None \<Rightarrow> []
            | Some h \<Rightarrow> if h = [] then [] else [Emit ''peer_joined'' (Message ''Peer joined'') h])
         @ [Emit ''ready_for_call'' No_payload rid])"
    using join_existing[OF wf_roomD[OF assms(1,2)] assms(2,3), of sid now]
    by (simp add: emit_if_def)
  show "map_of (AList.update rid (m\<lparr>client_sid := Some sid, last_active := now\<rparr>) (rooms st)) rid
        = Some (m\<lparr>client_sid := Some sid, last_active := now\<rparr>)"
    by (simp add: update_conv')
next
  assume a: "truthy (Some vh) \<and> truthy (Some fn) \<and> truthy (Some host)
        \<and> fresh_room_id gen 1 (gen 0) (rooms st0) = Some r \<and> r \<noteq> []"
  let ?new = "\<lparr>host_sid = Some host, client_sid = None, video_hash = vh, filename = fn,
                state = \<lparr>time = 0, paused = True\<rparr>, last_active = now0\<rparr>"
  let ?st1 = "st0\<lparr>rooms := AList.update r ?new (rooms st0),
                  room_locks := (if r \<in> set (room_locks st0) then room_locks st0
                                 else room_locks st0 @ [r])\<rparr>"
  have c: "handle_create_room host now0 gen \<lparr>cd_video_hash = Some vh, cd_filename = Some fn\<rparr> st0
             = Some (?st1, [Join_room host r, Emit ''room_created'' (Room_created r fn) host])"
    using a by (intro create_then_lookup) simp_all
  have l: "r \<in> set (room_locks ?st1)" by simp
  have k: "map_of (rooms ?st1) r = Some ?new" by (simp add: update_conv')
  have n: "client_sid ?new = None" by simp
  from a have hne: "host \<noteq> []" by (simp add: truthy_def)
  from a have rne: "r \<noteq> []" by simp
  have j: "handle_join_room sid now \<lparr>jd_room_id = Some r, jd_video_hash = Some vh\<rparr> ?st1
             = Inr (?st1\<lparr>rooms := AList.update r (?new\<lparr>client_sid := Some sid, last_active := now\<rparr>)
                                      (rooms ?st1)\<rparr>,
                    [Join_room sid r,
                     Emit ''sync_state'' (Sync_state \<lparr>time = 0, paused = True\<rparr>) sid,
                     Emit ''peer_joined'' (Message ''Peer joined'') host,
                     Emit ''ready_for_call'' No_payload r])"
    using join_existing[OF rne l k n, of sid now] hne by (simp add: emit_if_def)
  from c j show "\<exists>st1 st2.
           handle_create_room host now0 gen \<lparr>cd_video_hash = Some vh, cd_filename = Some fn\<rparr> st0
             = Some (st1, [Join_room host r, Emit ''room_created'' (Room_created r fn) host])
           \<and> handle_join_room sid now \<lparr>jd_room_id = Some r, jd_video_hash = Some vh\<rparr> st1
             = Inr (st2, [Join_room sid r,
                          Emit ''sync_state'' (Sync_state \<lparr>time = 0, paused = True\<rparr>) sid,
                          Emit ''peer_joined'' (Message ''Peer joined'') host,
                          Emit ''ready_for_call'' No_payload r])"
    by blast
qed

theorem join_room_success_witness:
  "wf_server created_server
   \<and> map_of (rooms created_server) ''r1'' = Some created_room
   \<and> client_sid created_room = None
   \<and> truthy (Some ''abc123'') \<and> truthy (Some ''movie.mp4'') \<and> truthy (Some ''A'')
   \<and> fresh_room_id example_gen 1 (example_gen 0) (rooms initial_server) = Some ''r1''
   \<and> ''r1'' \<noteq> []
   \<and> handle_create_room ''A'' 10 example_gen
        \<lparr>cd_video_hash = Some ''abc123'', cd_filename = Some ''movie.mp4''\<rparr> initial_server
      = Some (created_server,
              [Join_room ''A'' ''r1'', Emit ''room_created'' (Room_created ''r1'' ''movie.mp4'') ''A''])
   \<and> handle_join_room ''B'' 11 \<lparr>jd_room_id = Some ''r1'', jd_video_hash = Some ''abc123''\<rparr>
        created_server
      = Inr (paired_server,
             [Join_room ''B'' ''r1'',
              Emit ''sync_state'' (Sync_state \<lparr>time = 0, paused = True\<rparr>) ''B'',
              Emit ''peer_joined'' (Message ''Peer joined'') ''A'',
              Emit ''ready_for_call'' No_payload ''r1''])
   \<and> map_option client_sid (map_of (rooms paired_server) ''r1'') = Some (Some ''B'')"
proof -
  have h1: "wf_server created_server" by (rule wf_created_server)
  have h2: "map_of (rooms created_server) ''r1'' = Some created_room"
    by (simp add: example_defs)
  have h3: "client_sid created_room = None" by (simp add: example_defs)
  have t: "truthy (Some ''abc123'') \<and> truthy (Some ''movie.mp4'') \<and> truthy (Some ''A'')"
    by (simp add: truthy_def)
  have f: "fresh_room_id example_gen 1 (example_gen 0) (rooms initial_server) = Some ''r1''"
    by (simp add: fresh_room_id.simps example_defs)
  have c: "handle_create_room ''A'' 10 example_gen
        \<lparr>cd_video_hash = Some ''abc123'', cd_filename = Some ''movie.mp4''\<rparr> initial_server
      = Some (created_server,
              [Join_room ''A'' ''r1'', Emit ''room_created'' (Room_created ''r1'' ''movie.mp4'') ''A''])"
    by (simp add: handle_create_room_def truthy_def fresh_room_id.simps example_defs)
  have p: "paired_server = created_server\<lparr>rooms := AList.update ''r1''
      (created_room\<lparr>client_sid := Some ''B'', last_active := 11\<rparr>) (rooms created_server)\<rparr>"
    by (simp add: example_defs)
  have v: "video_hash created_room = ''abc123''" "state created_room = \<lparr>time = 0, paused = True\<rparr>"
    "host_sid created_room = Some ''A''"
    by (simp_all add: example_defs)
  from join_room_success[OF h1 h2 h3, of "''B''" 11 "''abc123''" "''movie.mp4''" "''A''"
         example_gen initial_server "''r1''" 10]
       h1 h2 h3 t f c
  show ?thesis by (simp add: p v)
qed

text \<open>
  The claim as first stated, with \<open>peer_joined\<close> always sent to the host connection, fails
  for a room whose host has left: after \<open>A\<close> creates \<open>r1\<close> and disconnects, the host slot is
  empty, the join of \<open>B\<close> succeeds, and its messages are \<open>sync_state\<close> and \<open>ready_for_call\<close>
  only.
\<close>

theorem join_abandoned_room_counterexample:
  "handle_disconnect ''A'' example_clock created_server = abandoned_server
   \<and> map_option host_sid (map_of (rooms abandoned_server) ''r1'') = Some None
   \<and> map_option client_sid (map_of (rooms abandoned_server) ''r1'') = Some None
   \<and> handle_join_room ''B'' 30 \<lparr>jd_room_id = Some ''r1'', jd_video_hash = Some ''abc123''\<rparr>
        abandoned_server
      = Inr (\<lparr>rooms = [(''r1'', created_room\<lparr>host_sid := None, client_sid := Some ''B'',
                                              last_active := 30\<rparr>)],
              room_locks = [''r1'']\<rparr>,
             [Join_room ''B'' ''r1'',
              Emit ''sync_state'' (Sync_state \<lparr>time = 0, paused = True\<rparr>) ''B'',
              Emit ''ready_for_call'' No_payload ''r1''])"
  by (simp add: handle_disconnect_def handle_join_room_def emit_if_def Let_def example_defs)

subsection \<open>Echo to the sender\<close>

text \<open>
  Claim C1. The handlers mean to route "to the other participant only (avoid echo)". They
  do so unless the sender is in both slots (\<open>no_echo_unless_self_paired\<close>). That state is
  reached when the host joins its own room, and there every targeted message comes back
  to its sender: after \<open>A\<close> joins the room \<open>r1\<close> it created, the \<open>sync_state\<close> of its own
  \<open>control\<close> and \<open>state_update\<close> events and its relayed \<open>offer\<close>, \<open>answer\<close> and
  \<open>ice_candidate\<close> are all addressed to \<open>A\<close>.
\<close>

theorem echo_in_self_joined_room:
  "handle_join_room ''A'' 11 \<lparr>jd_room_id = Some ''r1'', jd_video_hash = Some ''abc123''\<rparr>
        created_server
      = Inr (self_joined_server,
             [Join_room ''A'' ''r1'',
              Emit ''sync_state'' (Sync_state \<lparr>time = 0, paused = True\<rparr>) ''A'',
              Emit ''peer_joined'' (Message ''Peer joined'') ''A'',
              Emit ''ready_for_call'' No_payload ''r1''])
   \<and> handle_control ''A'' 12
        \<lparr>ct_room_id = Some ''r1'', ct_action = Some ''seek'', ct_time = Time 42.5\<rparr>
        self_joined_server
      = Inr (\<lparr>rooms = [(''r1'', created_room\<lparr>client_sid := Some ''A'',
                          state := \<lparr>time = 42.5, paused = True\<rparr>, last_active := 12\<rparr>)],
              room_locks = [''r1'']\<rparr>,
             [Emit ''sync_state'' (Sync_state \<lparr>time = 42.5, paused = True\<rparr>) ''A''])
   \<and> handle_state_update ''A'' 12
        \<lparr>su_room_id = Some ''r1'', su_time = Time 7, su_paused = Some False\<rparr> self_joined_server
      = Inr (\<lparr>rooms = [(''r1'', created_room\<lparr>client_sid := Some ''A'',
                          state := \<lparr>time = 7, paused = False\<rparr>, last_active := 12\<rparr>)],
              room_locks = [''r1'']\<rparr>,
             [Emit ''sync_state'' (Sync_state \<lparr>time = 7, paused = False\<rparr>) ''A''])
   \<and> handle_offer ''A'' \<lparr>sg_room_id = Some ''r1'', sg_value = Some ''sdp''\<rparr> self_joined_server
      = [Emit ''offer'' (Signal ''r1'' ''offer'' (Some ''sdp'')) ''A'']
   \<and> handle_answer ''A'' \<lparr>sg_room_id = Some ''r1'', sg_value = Some ''sdp''\<rparr> self_joined_server
      = [Emit ''answer'' (Signal ''r1'' ''answer'' (Some ''sdp'')) ''A'']
   \<and> handle_ice_candidate ''A'' \<lparr>sg_room_id = Some ''r1'', sg_value = Some ''c''\<rparr>
        self_joined_server
      = [Emit ''ice_candidate'' (Signal ''r1'' ''candidate'' (Some ''c'')) ''A'']"
  by (simp add: handle_join_room_def handle_control_def handle_state_update_def handle_offer_def
        handle_answer_def handle_ice_candidate_def relay_def route_to_peer_def emit_if_def
        float_of_def Let_def example_defs)

subsection \<open>Reachable registries are well-formed\<close>

lemma fresh_room_id_Some:
  assumes "fresh_room_id gen i r0 rs = Some r"
  shows "map_of rs r = None \<and> (r = r0 \<or> (\<exists>j. r = gen j))"
proof (rule fresh_room_id.raw_induct
    [where P = "\<lambda>g i r0 rs r. map_of rs r = None \<and> (r = r0 \<or> (\<exists>j. r = g j))", OF _ assms])
  fix f :: "(nat \<Rightarrow> room_id) \<Rightarrow> nat \<Rightarrow> room_id \<Rightarrow> (room_id \<times> room) list \<Rightarrow> room_id option"
    and g :: "nat \<Rightarrow> room_id" and i :: nat and room_id :: room_id
    and rs' :: "(room_id \<times> room) list" and y :: room_id
  assume ih: "\<And>g' i' r' b y'. f g' i' r' b = Some y' \<Longrightarrow>
                map_of b y' = None \<and> (y' = r' \<or> (\<exists>j. y' = g' j))"
    and b: "(if map_of rs' room_id \<noteq> None then f g (Suc i) (g i) rs' else Some room_id) = Some y"
  show "map_of rs' y = None \<and> (y = room_id \<or> (\<exists>j. y = g j))"
  proof (cases "map_of rs' room_id \<noteq> None")
    case True
    with b have "f g (Suc i) (g i) rs' = Some y" by simp
    from ih[OF this] show ?thesis by auto
  next
    case False
    with b show ?thesis by simp
  qed
qed

text \<open>The loop of \<open>create_room\<close> ends as soon as a token is drawn that is not a room id.\<close>

lemma fresh_room_id_returns:
  assumes "map_of rs (gen (i + k)) = None"
  shows "\<exists>r. fresh_room_id gen i r0 rs = Some r"
  using assms
proof (induction k arbitrary: i r0)
  case 0
  then show ?case
    by (simp add: fresh_room_id.simps[of gen i r0] fresh_room_id.simps[of gen "Suc i" "gen i"])
next
  case (Suc k)
  from Suc.prems have "map_of rs (gen (Suc i + k)) = None" by simp
  from Suc.IH[OF this] show ?case
    by (simp add: fresh_room_id.simps[of gen i r0])
qed

lemma wf_initial_server: "wf_server initial_server"
  by (simp add: wf_server_def initial_server_def)

lemma wf_server_keys:
  assumes "wf_server st" and "map fst (rooms st') = map fst (rooms st)"
    and "room_locks st' = room_locks st"
  shows "wf_server st'"
  using assms by (simp add: wf_server_def)

lemma wf_create_room:
  assumes "wf_server st" and "\<forall>i. gen i \<noteq> []"
    and "handle_create_room sid now gen cd st = Some (st', effs)"
  shows "wf_server st'"
proof (cases "truthy (cd_video_hash cd) \<and> truthy (cd_filename cd)")
  case False
  with assms(3) have "st' = st" by (auto simp: handle_create_room_def)
  with assms(1) show ?thesis by simp
next
  case True
  then obtain vh fn where v: "cd_video_hash cd = Some vh" "cd_filename cd = Some fn"
    by (auto simp: truthy_def split: option.splits)
  from assms(3) True v obtain r where f: "fresh_room_id gen 1 (gen 0) (rooms st) = Some r"
    and s: "st' = st\<lparr>rooms := AList.update r
                \<lparr>host_sid = Some sid, client_sid = None, video_hash = vh, filename = fn,
                 state = \<lparr>time = 0, paused = True\<rparr>, last_active = now\<rparr> (rooms st),
              room_locks := (if r \<in> set (room_locks st) then room_locks st
                             else room_locks st @ [r])\<rparr>"
    by (auto simp: handle_create_room_def split: option.splits)
  from fresh_room_id_Some[OF f] have n: "map_of (rooms st) r = None"
    and g: "r = gen 0 \<or> (\<exists>j. r = gen j)"
    by auto
  from g assms(2) have ne: "r \<noteq> []" by metis
  from n have k: "r \<notin> fst ` set (rooms st)" by (simp add: map_of_eq_None_iff)
  then have keys: "map fst (rooms st') = map fst (rooms st) @ [r]"
    by (simp add: s update_keys)
  from assms(1) k ne show ?thesis
    unfolding wf_server_def keys by (auto simp: s)
qed

lemma wf_join_room:
  assumes "wf_server st" and "handle_join_room sid now jd st = Inr (st', effs)"
  shows "wf_server st'"
proof -
  from assms(2) have "map fst (rooms st') = map fst (rooms st) \<and> room_locks st' = room_locks st"
    by (auto simp: handle_join_room_def Let_def update_existing_keys
             split: option.splits if_splits)
  with assms(1) show ?thesis by (simp add: wf_server_keys)
qed

lemma delete_rooms_locks:
  "set (room_locks st) - set ds \<subseteq> set (room_locks (delete_rooms ds st))"
proof (induction ds arbitrary: st)
  case Nil
  show ?case by simp
next
  case (Cons rid ds)
  let ?st1 = "if map_of (rooms st) rid = None then st
              else let st1 = st\<lparr>rooms := AList.delete rid (rooms st)\<rparr>
                   in if rid \<in> set (room_locks st1)
                      then st1\<lparr>room_locks := removeAll rid (room_locks st1)\<rparr>
                      else st1"
  have "set (room_locks st) - {rid} \<subseteq> set (room_locks ?st1)"
    by (auto simp: Let_def)
  moreover have "set (room_locks ?st1) - set ds \<subseteq> set (room_locks (delete_rooms ds ?st1))"
    by (rule Cons.IH)
  moreover have "delete_rooms (rid # ds) st = delete_rooms ds ?st1" by simp
  ultimately show ?case by auto
qed

lemma wf_cleanup_pass:
  assumes "wf_server st"
  shows "wf_server (cleanup_pass now st)"
proof -
  let ?ds = "collect_to_delete now (rooms st)"
  have r: "rooms (cleanup_pass now st) = filter (\<lambda>p. fst p \<notin> set ?ds) (rooms st)"
    by (simp add: cleanup_pass_def delete_rooms_rooms)
  have l: "set (room_locks st) - set ?ds \<subseteq> set (room_locks (cleanup_pass now st))"
    by (simp add: cleanup_pass_def delete_rooms_locks)
  from assms have d: "distinct (map fst (rooms (cleanup_pass now st)))"
    unfolding r wf_server_def by (simp add: distinct_map_filter)
  from assms l have s: "set (map fst (rooms (cleanup_pass now st)))
                        \<subseteq> set (room_locks (cleanup_pass now st))"
    unfolding r wf_server_def by auto
  from assms have e: "[] \<notin> set (map fst (rooms (cleanup_pass now st)))"
    unfolding r wf_server_def by auto
  from d s e show ?thesis by (simp add: wf_server_def)
qed

lemma wf_disconnect: "wf_server st \<Longrightarrow> wf_server (handle_disconnect sid clock st)"
  by (simp add: wf_server_def handle_disconnect_def disconnect_loop_keys)

text \<open>
  Every reachable registry is well-formed, so the properties of this file that assume a
  well-formed registry hold in every state the server can be in.
\<close>

lemma reachable_wf: "reachable st \<Longrightarrow> wf_server st"
proof (induction rule: reachable.induct)
  case reachable_initial
  show ?case by (rule wf_initial_server)
next
  case (reachable_create st gen sid now cd st' effs)
  then show ?case by (auto intro: wf_create_room)
next
  case (reachable_join st sid now jd st' effs)
  then show ?case by (auto intro: wf_join_room)
next
  case (reachable_control st sid now ct st' effs)
  from handle_control_keys[OF reachable_control.hyps(2)] reachable_control.IH
  show ?case by (simp add: wf_server_keys)
next
  case (reachable_state_update st sid now su st' effs)
  from handle_state_update_keys[OF reachable_state_update.hyps(2)] reachable_state_update.IH
  show ?case by (simp add: wf_server_keys)
next
  case (reachable_disconnect st sid clock)
  then show ?case by (simp add: wf_disconnect)
next
  case (reachable_cleanup st now)
  then show ?case by (simp add: wf_cleanup_pass)
qed

lemma reachable_self_joined: "reachable self_joined_server"
proof -
  have c: "handle_create_room ''A'' 10 example_gen
      \<lparr>cd_video_hash = Some ''abc123'', cd_filename = Some ''movie.mp4''\<rparr> initial_server
     = Some (created_server,
             [Join_room ''A'' ''r1'', Emit ''room_created'' (Room_created ''r1'' ''movie.mp4'') ''A''])"
    by (simp add: handle_create_room_def truthy_def fresh_room_id.simps example_defs)
  have g: "\<forall>i. example_gen i \<noteq> []" by (simp add: example_gen_def)
  have j: "handle_join_room ''A'' 11 \<lparr>jd_room_id = Some ''r1'', jd_video_hash = Some ''abc123''\<rparr>
             created_server
           = Inr (self_joined_server,
                  [Join_room ''A'' ''r1'',
                   Emit ''sync_state'' (Sync_state \<lparr>time = 0, paused = True\<rparr>) ''A'',
                   Emit ''peer_joined'' (Message ''Peer joined'') ''A'',
                   Emit ''ready_for_call'' No_payload ''r1''])"
    by (simp add: handle_join_room_def emit_if_def Let_def example_defs)
  from reachable_create[OF reachable_initial g c] have "reachable created_server" .
  from reachable_join[OF this j] show ?thesis .
qed

end
